theory Spec2Isabelle
  imports Main "HOL-Library.Word"
begin

section \<open>Data model of the driver\<close>

text \<open>
  The numeric command-line options are declared in \<open>Driver.h\<close>, which is not among the
  sources here; they are taken to be unsigned 32-bit values (\<open>std::optional<uint32_t>\<close>),
  whose arithmetic wraps around.
\<close>

type_synonym uint32 = "32 word"

datatype DiagnosticSeverity = Ignored | Note | Warning | Error | Fatal

text \<open>
  The diagnostic codes that \<open>Driver::processOptions\<close> names, and one constructor for
  every other code of the \<open>diag\<close> namespace.
\<close>

datatype DiagCode =
    DuplicateDefinition
  | BadProceduralForce
  | StaticInitializerMustBeExplicit
  | ImplicitConvert
  | BadFinishNum
  | NonstandardSysFunc
  | NonstandardForeach
  | NonstandardDist
  | IndexOOB
  | RangeOOB
  | RangeWidthOOB
  | ImplicitNamedPortTypeMismatch
  | SplitDistWeightOp
  | OtherDiag nat

record Diagnostic =
  diagCode :: DiagCode
  diagIsError :: bool

datatype MinTypMax = MinTypMax_Min | MinTypMax_Typ | MinTypMax_Max

text \<open>A time scale \<open><base>/<precision>\<close> as \<open>TimeScale::fromString\<close> returns it.\<close>

type_synonym TimeScale = "string \<times> string"

subsection \<open>\<open>Driver::Options\<close>\<close>

record Options =
  includeDirs :: "string list"
  includeSystemDirs :: "string list"
  libDirs :: "string list"
  libExts :: "string list"
  excludeExts :: "string set"
  defines' :: "string list"
  undefines :: "string list"
  maxIncludeDepth :: "uint32 option"
  librariesInheritMacros :: "bool option"
  ignoreDirectives :: "string list"
  maxParseDepth :: "uint32 option"
  maxLexerErrors :: "uint32 option"
  numThreads :: "uint32 option"
  maxInstanceDepth :: "uint32 option"
  maxGenerateSteps :: "uint32 option"
  maxConstexprDepth :: "uint32 option"
  maxConstexprSteps :: "uint32 option"
  maxConstexprBacktrace :: "uint32 option"
  maxInstanceArray :: "uint32 option"
  compat :: "string option"
  minTypMax :: "string option"
  timeScale :: "string option"
  allowUseBeforeDeclare :: "bool option"
  ignoreUnknownModules :: "bool option"
  relaxEnumConversions :: "bool option"
  allowHierarchicalConst :: "bool option"
  allowDupInitialDrivers :: "bool option"
  strictDriverChecking :: "bool option"
  onlyLint :: "bool option"
  topModules :: "string list"
  paramOverrides :: "string list"
  warningOptions :: "string list"
  colorDiags :: "bool option"
  diagColumn :: "bool option"
  diagLocation :: "bool option"
  diagSourceLine :: "bool option"
  diagOptionName :: "bool option"
  diagIncludeStack :: "bool option"
  diagMacroExpansion :: "bool option"
  diagHierarchy :: "bool option"
  errorLimit :: "uint32 option"
  suppressWarningsPaths :: "string list"
  suppressMacroWarningsPaths :: "string list"
  singleUnit :: "bool option"
  libraryFiles :: "string list"

subsection \<open>The option bag\<close>

record SourceOptions =
  so_numThreads :: "uint32 option"
  so_singleUnit :: bool
  so_onlyLint :: bool
  so_librariesInheritMacros :: bool

record PreprocessorOptions =
  ppo_predefines :: "string list"
  ppo_undefines :: "string list"
  ppo_predefineSource :: string
  ppo_maxIncludeDepth :: uint32
  ppo_ignoreDirectives :: "string set"

record LexerOptions =
  lo_maxErrors :: uint32

record ParserOptions =
  po_maxRecursionDepth :: uint32

record CompilationOptions =
  co_maxInstanceDepth :: uint32
  co_maxGenerateSteps :: uint32
  co_maxConstexprDepth :: uint32
  co_maxConstexprSteps :: uint32
  co_maxConstexprBacktrace :: uint32
  co_maxInstanceArray :: uint32
  co_errorLimit :: uint32
  co_suppressUnused :: bool
  co_scriptMode :: bool
  co_lintMode :: bool
  co_allowHierarchicalConst :: bool
  co_allowDupInitialDrivers :: bool
  co_relaxEnumConversions :: bool
  co_strictDriverChecking :: bool
  co_ignoreUnknownModules :: bool
  co_allowUseBeforeDeclare :: bool
  co_topModules :: "string set"
  co_paramOverrides :: "string list"
  co_minTypMax :: MinTypMax
  co_defaultTimeScale :: "TimeScale option"

record Bag =
  bag_soptions :: SourceOptions
  bag_ppoptions :: PreprocessorOptions
  bag_loptions :: LexerOptions
  bag_poptions :: ParserOptions
  bag_coptions :: CompilationOptions

subsection \<open>Collaborators of the driver\<close>

text \<open>
  Modelled from the spec: the source manager (\<open>SourceManager\<close>, not among the sources
  here) keeps the user and system include directories; \<open>addUserDirectory\<close> and
  \<open>addSystemDirectory\<close> return false when the directory does not exist.
\<close>

record SourceManager =
  userDirectories :: "string list"
  systemDirectories :: "string list"

text \<open>
  Modelled from the spec: the source loader (\<open>SourceLoader\<close>, not among the sources here)
  records the file patterns given to \<open>addFiles\<close>, the library files given to
  \<open>addLibraryFiles\<close> with their library name, and the search directories and extensions.
\<close>

record SourceLoader =
  loaderFiles :: "string list"
  loaderLibraryFiles :: "(string \<times> string) list"
  searchDirectories :: "string list"
  searchExtensions :: "string list"

definition addFiles :: "string \<Rightarrow> SourceLoader \<Rightarrow> SourceLoader" where
  "addFiles pattern l = l\<lparr>loaderFiles := loaderFiles l @ [pattern]\<rparr>"

definition addLibraryFiles :: "string \<Rightarrow> string \<Rightarrow> SourceLoader \<Rightarrow> SourceLoader" where
  "addLibraryFiles libName path l = l\<lparr>loaderLibraryFiles := loaderLibraryFiles l @ [(libName, path)]\<rparr>"

definition addSearchDirectories :: "string list \<Rightarrow> SourceLoader \<Rightarrow> SourceLoader" where
  "addSearchDirectories dirs l = l\<lparr>searchDirectories := searchDirectories l @ dirs\<rparr>"

definition addSearchExtensions :: "string list \<Rightarrow> SourceLoader \<Rightarrow> SourceLoader" where
  "addSearchExtensions exts l = l\<lparr>searchExtensions := searchExtensions l @ exts\<rparr>"

text \<open>
  Modelled from the spec: the diagnostic engine (\<open>DiagnosticEngine\<close>, not among the
  sources here) holds the severity table (a mapping from diagnostic code to severity that
  \<open>setSeverity\<close> overrides), the error limit, the paths registered by \<open>addIgnorePath\<close> and
  \<open>addIgnoreMacroPath\<close>, and the diagnostics handed to \<open>issue\<close>.
\<close>

type_synonym SeverityTable = "DiagCode \<rightharpoonup> DiagnosticSeverity"

record DiagnosticEngine =
  severityTable :: SeverityTable
  engineErrorLimit :: int
  ignorePaths :: "string list"
  ignoreMacroPaths :: "string list"
  issued :: "Diagnostic list"

definition setSeverity :: "DiagCode \<Rightarrow> DiagnosticSeverity \<Rightarrow> DiagnosticEngine \<Rightarrow> DiagnosticEngine" where
  "setSeverity c s e = e\<lparr>severityTable := (severityTable e)(c \<mapsto> s)\<rparr>"

definition setErrorLimit :: "int \<Rightarrow> DiagnosticEngine \<Rightarrow> DiagnosticEngine" where
  "setErrorLimit n e = e\<lparr>engineErrorLimit := n\<rparr>"

definition addIgnorePath :: "string \<Rightarrow> DiagnosticEngine \<Rightarrow> DiagnosticEngine" where
  "addIgnorePath p e = e\<lparr>ignorePaths := ignorePaths e @ [p]\<rparr>"

definition addIgnoreMacroPath :: "string \<Rightarrow> DiagnosticEngine \<Rightarrow> DiagnosticEngine" where
  "addIgnoreMacroPath p e = e\<lparr>ignoreMacroPaths := ignoreMacroPaths e @ [p]\<rparr>"

definition issue :: "Diagnostic \<Rightarrow> DiagnosticEngine \<Rightarrow> DiagnosticEngine" where
  "issue dg e = e\<lparr>issued := issued e @ [dg]\<rparr>"

text \<open>The display flags of the text diagnostic client (\<open>TextDiagnosticClient\<close>).\<close>

record DiagClient =
  showColors :: bool
  showColumn :: bool
  showLocation :: bool
  showSourceLine :: bool
  showOptionName :: bool
  showIncludeStack :: bool
  showMacroExpansion :: bool
  showHierarchyInstance :: bool

text \<open>
  Text written to a stream: each chunk carries the colour of the diagnostic client it was
  printed with (\<open>fg(diagClient->errorColor)\<close>), or none.
\<close>

datatype TextColor = errorColor | warningColor | highlightColor

type_synonym OutChunk = "TextColor option \<times> string"

subsection \<open>The driver and the process state it changes\<close>

record Driver =
  options :: Options
  anyFailedLoads :: bool
  sourceManager :: SourceManager
  sourceLoader :: SourceLoader
  diagEngine :: DiagnosticEngine
  diagClient :: DiagClient
  cmdLineErrors :: "string list"
  currentPath :: string
  stderrText :: "OutChunk list"
  stdoutText :: "OutChunk list"
  stderrColorsEnabled :: bool
  stdoutColorsEnabled :: bool

text \<open>
  What the driver reads from outside itself: the terminal, the file system, and the
  functions of collaborators whose code is not among the sources here, taken as
  parameters. \<open>fs_canonical\<close> takes the working directory and a path and returns
  \<open>None\<close> where \<open>fs::canonical\<close> sets its error code. \<open>currentPathReadable\<close>
  says of a working directory whether \<open>fs::current_path(ec)\<close> can report it (it cannot
  when the directory has been removed, say), and \<open>directoryEnterable\<close> says of a path
  whether \<open>fs::current_path(p, ec)\<close> can make it the working directory.
  \<open>cmdLine_parse\<close> is \<open>CommandLine::parse\<close>, which runs the option callbacks on the
  driver and leaves its errors in \<open>cmdLineErrors\<close>.
\<close>

record ParseOptions =
  expandEnvVars :: bool
  ignoreProgramName :: bool
  supportComments :: bool
  ignoreDuplicates :: bool

record Env =
  fileSupportsColors_stderr :: bool
  fileSupportsColors_stdout :: bool
  TimeScale_fromString :: "string \<Rightarrow> TimeScale option"
  directoryExists :: "string \<Rightarrow> bool"
  fs_canonical :: "string \<Rightarrow> string \<Rightarrow> string option"
  fs_parent_path :: "string \<Rightarrow> string"
  currentPathReadable :: "string \<Rightarrow> bool"
  directoryEnterable :: "string \<Rightarrow> bool"
  fileContents :: "string \<Rightarrow> string option"
  cmdLine_parse :: "string \<Rightarrow> ParseOptions \<Rightarrow> Driver \<Rightarrow> bool \<times> Driver"
  setDefaultWarnings :: "SeverityTable \<Rightarrow> SeverityTable"
  setWarningOptions :: "string list \<Rightarrow> SeverityTable \<Rightarrow> Diagnostic list \<times> SeverityTable"
  hasFiles :: "SourceLoader \<Rightarrow> bool"

definition addUserDirectory :: "Env \<Rightarrow> string \<Rightarrow> SourceManager \<Rightarrow> bool \<times> SourceManager" where
  "addUserDirectory env dir sm =
     (if directoryExists env dir then (True, sm\<lparr>userDirectories := userDirectories sm @ [dir]\<rparr>)
      else (False, sm))"

definition addSystemDirectory :: "Env \<Rightarrow> string \<Rightarrow> SourceManager \<Rightarrow> bool \<times> SourceManager" where
  "addSystemDirectory env dir sm =
     (if directoryExists env dir then (True, sm\<lparr>systemDirectories := systemDirectories sm @ [dir]\<rparr>)
      else (False, sm))"

section \<open>Printing errors and warnings\<close>

definition OS_printE :: "OutChunk \<Rightarrow> Driver \<Rightarrow> Driver" where
  "OS_printE c d = d\<lparr>stderrText := stderrText d @ [c]\<rparr>"

definition OS_print :: "OutChunk \<Rightarrow> Driver \<Rightarrow> Driver" where
  "OS_print c d = d\<lparr>stdoutText := stdoutText d @ [c]\<rparr>"

definition printError :: "string \<Rightarrow> Driver \<Rightarrow> Driver" where
  "printError message d =
     OS_printE (None, [CHR 0x0A]) (OS_printE (None, message) (OS_printE (Some errorColor, ''error: '') d))"

definition printWarning :: "string \<Rightarrow> Driver \<Rightarrow> Driver" where
  "printWarning message d =
     OS_printE (None, [CHR 0x0A]) (OS_printE (None, message) (OS_printE (Some warningColor, ''warning: '') d))"

definition onLoadError :: "string \<Rightarrow> Driver \<Rightarrow> Driver" where
  "onLoadError message d = (printError message d)\<lparr>anyFailedLoads := True\<rparr>"

section \<open>\<open>Driver::addStandardArgs\<close>: the callbacks\<close>

text \<open>\<open>std::string_view::find_last_of\<close> for one character: \<open>None\<close> is \<open>npos\<close>.\<close>

fun find_last_of :: "string \<Rightarrow> char \<Rightarrow> nat option" where
  "find_last_of [] c = None"
| "find_last_of (x # xs) c =
     (case find_last_of xs c of
        Some i \<Rightarrow> Some (Suc i)
      | None \<Rightarrow> if x = c then Some 0 else None)"


text \<open>The positional callback: a file pattern given without an option name.\<close>

definition positionalArg :: "string \<Rightarrow> Driver \<Rightarrow> Driver" where
  "positionalArg filePattern d =
     (if excludeExts (options d) \<noteq> {} \<and>
         (case find_last_of filePattern (CHR ''.'') of
            Some extIndex \<Rightarrow> drop (extIndex + 1) filePattern \<in> excludeExts (options d)
          | None \<Rightarrow> False)
      then d
      else d\<lparr>sourceLoader := addFiles filePattern (sourceLoader d)\<rparr>)"

section \<open>\<open>Driver::processCommandFile\<close>\<close>

text \<open>
  Modelled from the spec: \<open>OS::readFile\<close> (not among the sources here) reads the file into
  a byte buffer that ends with a sentinel byte; it fails when the file cannot be read.
\<close>

definition OS_readFile :: "Env \<Rightarrow> string \<Rightarrow> string option" where
  "OS_readFile env path = map_option (\<lambda>bytes. bytes @ [CHR 0x00]) (fileContents env path)"

datatype Failure = AssertionFailed

definition printCmdLineErrors :: "Driver \<Rightarrow> Driver" where
  "printCmdLineErrors d = foldl (\<lambda>d' err. OS_printE (None, err @ [CHR 0x0A]) d') d (cmdLineErrors d)"

text \<open>
  The two overloads of \<open>fs::current_path\<close> that take an error code. The first returns
  the working directory, or the empty path when it sets the error code; the second changes
  the working directory, or leaves it where it is when it sets the error code.
\<close>

definition fs_current_path :: "Env \<Rightarrow> Driver \<Rightarrow> string" where
  "fs_current_path env d = (if currentPathReadable env (currentPath d) then currentPath d else [])"

definition fs_set_current_path :: "Env \<Rightarrow> string \<Rightarrow> Driver \<Rightarrow> Driver" where
  "fs_set_current_path env p d = (if directoryEnterable env p then d\<lparr>currentPath := p\<rparr> else d)"

text \<open>
  The error code that the calls of \<open>fs::current_path\<close> set is never read by the source:
  when the capture fails \<open>currPath\<close> is the empty path, and when a change fails the
  function goes on in the directory it is in.
\<close>

definition processCommandFile :: "Env \<Rightarrow> string \<Rightarrow> bool \<Rightarrow> Driver \<Rightarrow> Failure + bool \<times> Driver" where
  "processCommandFile env fileName makeRelative d =
     (case (case fs_canonical env (currentPath d) fileName of
              None \<Rightarrow> None
            | Some path \<Rightarrow> map_option (Pair path) (OS_readFile env path)) of
        None \<Rightarrow>
          Inr (False, printError (''unable to find or open file: '' @ [CHR 0x27] @ fileName @ [CHR 0x27]) d)
      | Some (path, buffer) \<Rightarrow>
          (let currPath = (if makeRelative then fs_current_path env d else []);
               d1 = (if makeRelative then fs_set_current_path env (fs_parent_path env path) d else d);
               parseOpts = \<lparr>expandEnvVars = True, ignoreProgramName = True,
                            supportComments = True, ignoreDuplicates = True\<rparr>
           in if buffer = [] then Inl AssertionFailed
              else
                (let argStr = butlast buffer;
                     (result, d2) = cmdLine_parse env argStr parseOpts d1;
                     d3 = (if makeRelative then fs_set_current_path env currPath d2 else d2)
                 in if \<not> result then Inr (False, printCmdLineErrors d3)
                    else Inr (True, d3))))"

text \<open>The callbacks of \<open>-f\<close> (\<open>makeRelative\<close> false) and \<open>-F\<close> (\<open>makeRelative\<close> true).\<close>

definition commandFileArg :: "Env \<Rightarrow> bool \<Rightarrow> string \<Rightarrow> Driver \<Rightarrow> Failure + Driver" where
  "commandFileArg env makeRelative fileName d =
     (case processCommandFile env fileName makeRelative d of
        Inl f \<Rightarrow> Inl f
      | Inr (ok, d') \<Rightarrow> Inr (if \<not> ok then d'\<lparr>anyFailedLoads := True\<rparr> else d'))"

section \<open>\<open>Driver::processOptions\<close>\<close>

text \<open>Lines 282 to 292: whether diagnostics are printed in colour.\<close>

definition enableColors :: "Env \<Rightarrow> Driver \<Rightarrow> bool \<times> Driver" where
  "enableColors env d =
     (let colors = (case colorDiags (options d) of
                      Some b \<Rightarrow> b
                    | None \<Rightarrow> fileSupportsColors_stderr env)
      in if colors then
           (let d' = d\<lparr>stderrColorsEnabled := True\<rparr>
            in (colors, if fileSupportsColors_stdout env then d'\<lparr>stdoutColorsEnabled := True\<rparr> else d'))
         else (colors, d))"

text \<open>Lines 294 to 323: the compatibility profile and the validation of option values.\<close>

definition applyCompatVcs :: "Options \<Rightarrow> Options" where
  "applyCompatVcs opts =
     (let o1 = (if allowHierarchicalConst opts = None
                then opts\<lparr>allowHierarchicalConst := Some True\<rparr> else opts);
          o2 = (if allowUseBeforeDeclare o1 = None
                then o1\<lparr>allowUseBeforeDeclare := Some True\<rparr> else o1);
          o3 = (if relaxEnumConversions o2 = None
                then o2\<lparr>relaxEnumConversions := Some True\<rparr> else o2)
      in o3)"

definition quoted :: "string \<Rightarrow> string" where
  "quoted v = [CHR 0x27] @ v @ [CHR 0x27]"

definition validateCompat :: "Driver \<Rightarrow> Driver + Driver" where
  "validateCompat d =
     (case compat (options d) of
        Some v \<Rightarrow>
          if v = ''vcs'' then Inr (d\<lparr>options := applyCompatVcs (options d)\<rparr>)
          else Inl (printError (''invalid value for compat option: '' @ quoted v) d)
      | None \<Rightarrow> Inr d)"

definition validateTiming :: "Driver \<Rightarrow> Driver + Driver" where
  "validateTiming d =
     (case minTypMax (options d) of
        Some m \<Rightarrow>
          if m \<noteq> ''min'' \<and> m \<noteq> ''typ'' \<and> m \<noteq> ''max''
          then Inl (printError (''invalid value for timing option: '' @ quoted m) d)
          else Inr d
      | None \<Rightarrow> Inr d)"

definition validateSingleUnit :: "Driver \<Rightarrow> Driver + Driver" where
  "validateSingleUnit d =
     (if librariesInheritMacros (options d) = Some True \<and>
         \<not> (case singleUnit (options d) of Some b \<Rightarrow> b | None \<Rightarrow> False)
      then Inl (printError ''--single-unit must be set when --libraries-inherit-macros is used'' d)
      else Inr d)"

definition validateTimeScale :: "Env \<Rightarrow> Driver \<Rightarrow> Driver + Driver" where
  "validateTimeScale env d =
     (case timeScale (options d) of
        Some ts \<Rightarrow>
          if TimeScale_fromString env ts = None
          then Inl (printError (''invalid value for time scale option: '' @ quoted ts) d)
          else Inr d
      | None \<Rightarrow> Inr d)"

definition validateOptions :: "Env \<Rightarrow> Driver \<Rightarrow> Driver + Driver" where
  "validateOptions env d =
     (case validateCompat d of
        Inl d' \<Rightarrow> Inl d'
      | Inr d1 \<Rightarrow>
          (case validateTiming d1 of
             Inl d' \<Rightarrow> Inl d'
           | Inr d2 \<Rightarrow>
               (case validateSingleUnit d2 of
                  Inl d' \<Rightarrow> Inl d'
                | Inr d3 \<Rightarrow> validateTimeScale env d3)))"

text \<open>Lines 325 to 344: lint mode, include directories, library files, search paths.\<close>

definition registerIncludeDir ::
  "(Env \<Rightarrow> string \<Rightarrow> SourceManager \<Rightarrow> bool \<times> SourceManager) \<Rightarrow> Env \<Rightarrow> Driver \<Rightarrow> string \<Rightarrow> Driver" where
  "registerIncludeDir add env d dir =
     (let (ok, sm) = add env dir (sourceManager d);
          d' = d\<lparr>sourceManager := sm\<rparr>
      in if \<not> ok
         then printWarning (''include directory '' @ quoted dir @ '' does not exist'') d'
         else d')"

definition registerLibraryFiles :: "string list \<Rightarrow> SourceLoader \<Rightarrow> SourceLoader" where
  "registerLibraryFiles strs l = foldl (\<lambda>l' str. addLibraryFiles [] str l') l strs"

definition registerPaths :: "Env \<Rightarrow> Driver \<Rightarrow> Driver" where
  "registerPaths env d =
     (let d1 = (if onlyLint (options d) = Some True \<and> ignoreUnknownModules (options d) = None
                then d\<lparr>options := (options d)\<lparr>ignoreUnknownModules := Some True\<rparr>\<rparr>
                else d);
          d2 = foldl (registerIncludeDir addUserDirectory env) d1 (includeDirs (options d1));
          d3 = foldl (registerIncludeDir addSystemDirectory env) d2 (includeSystemDirs (options d2));
          d4 = d3\<lparr>sourceLoader := registerLibraryFiles (libraryFiles (options d3)) (sourceLoader d3)\<rparr>;
          d5 = d4\<lparr>sourceLoader := addSearchDirectories (libDirs (options d4)) (sourceLoader d4)\<rparr>;
          d6 = d5\<lparr>sourceLoader := addSearchExtensions (libExts (options d5)) (sourceLoader d5)\<rparr>
      in d6)"

text \<open>Lines 354 to 410: the diagnostic client and the diagnostic engine.\<close>

definition configureClient :: "bool \<Rightarrow> Options \<Rightarrow> DiagClient \<Rightarrow> DiagClient" where
  "configureClient colors opts dc =
     dc\<lparr>showColors := colors,
        showColumn := (case diagColumn opts of Some b \<Rightarrow> b | None \<Rightarrow> True),
        showLocation := (case diagLocation opts of Some b \<Rightarrow> b | None \<Rightarrow> True),
        showSourceLine := (case diagSourceLine opts of Some b \<Rightarrow> b | None \<Rightarrow> True),
        showOptionName := (case diagOptionName opts of Some b \<Rightarrow> b | None \<Rightarrow> True),
        showIncludeStack := (case diagIncludeStack opts of Some b \<Rightarrow> b | None \<Rightarrow> True),
        showMacroExpansion := (case diagMacroExpansion opts of Some b \<Rightarrow> b | None \<Rightarrow> True),
        showHierarchyInstance := (case diagHierarchy opts of Some b \<Rightarrow> b | None \<Rightarrow> True)\<rparr>"

definition setSeverities :: "Options \<Rightarrow> DiagnosticEngine \<Rightarrow> DiagnosticEngine" where
  "setSeverities opts e =
     (let e1 = setSeverity DuplicateDefinition Error e;
          e2 = setSeverity BadProceduralForce Error e1
      in if compat opts = Some ''vcs'' then
           (let e3 = setSeverity StaticInitializerMustBeExplicit Ignored e2;
                e4 = setSeverity ImplicitConvert Ignored e3;
                e5 = setSeverity BadFinishNum Ignored e4;
                e6 = setSeverity NonstandardSysFunc Ignored e5;
                e7 = setSeverity NonstandardForeach Ignored e6;
                e8 = setSeverity NonstandardDist Ignored e7
            in e8)
         else
           (let e3 = setSeverity IndexOOB Error e2;
                e4 = setSeverity RangeOOB Error e3;
                e5 = setSeverity RangeWidthOOB Error e4;
                e6 = setSeverity ImplicitNamedPortTypeMismatch Error e5;
                e7 = setSeverity SplitDistWeightOp Error e6
            in e7))"

definition canonicalOrEmpty :: "Env \<Rightarrow> string \<Rightarrow> string \<Rightarrow> string" where
  "canonicalOrEmpty env cur pathStr = (case fs_canonical env cur pathStr of Some p \<Rightarrow> p | None \<Rightarrow> [])"

definition addSuppressPaths :: "Env \<Rightarrow> string \<Rightarrow> Options \<Rightarrow> DiagnosticEngine \<Rightarrow> DiagnosticEngine" where
  "addSuppressPaths env cur opts e =
     (let e1 = foldl (\<lambda>e' pathStr.
                  (let path = canonicalOrEmpty env cur pathStr
                   in if path \<noteq> [] then addIgnorePath path e' else e'))
                e (suppressWarningsPaths opts);
          e2 = foldl (\<lambda>e' pathStr.
                  (let path = canonicalOrEmpty env cur pathStr
                   in if path \<noteq> [] then addIgnoreMacroPath path e' else e'))
                e1 (suppressMacroWarningsPaths opts)
      in e2)"

definition applyWarningOptions :: "Env \<Rightarrow> Options \<Rightarrow> DiagnosticEngine \<Rightarrow> DiagnosticEngine" where
  "applyWarningOptions env opts e =
     (let (optionDiags, t) = setWarningOptions env (warningOptions opts) (severityTable e);
          e1 = e\<lparr>severityTable := t\<rparr>
      in foldl (\<lambda>e' dg. issue dg e') e1 optionDiags)"

definition configureEngine :: "Env \<Rightarrow> string \<Rightarrow> Options \<Rightarrow> DiagnosticEngine \<Rightarrow> DiagnosticEngine" where
  "configureEngine env cur opts e =
     (let e1 = setErrorLimit (sint (case errorLimit opts of Some n \<Rightarrow> n | None \<Rightarrow> 20)) e;
          e2 = e1\<lparr>severityTable := setDefaultWarnings env (severityTable e1)\<rparr>;
          e3 = setSeverities opts e2;
          e4 = addSuppressPaths env cur opts e3
      in applyWarningOptions env opts e4)"

definition processOptions :: "Env \<Rightarrow> Driver \<Rightarrow> bool \<times> Driver" where
  "processOptions env d =
     (let (colors, d1) = enableColors env d
      in case validateOptions env d1 of
           Inl d' \<Rightarrow> (False, d')
         | Inr d2 \<Rightarrow>
             (let d3 = registerPaths env d2
              in if anyFailedLoads d3 then (False, d3)
                 else if \<not> hasFiles env (sourceLoader d3) then (False, printError ''no input files'' d3)
                 else
                   (let d4 = d3\<lparr>diagClient := configureClient colors (options d3) (diagClient d3)\<rparr>;
                        d5 = d4\<lparr>diagEngine := configureEngine env (currentPath d4) (options d4) (diagEngine d4)\<rparr>
                    in (True, d5))))"

section \<open>\<open>Driver::createOptionBag\<close>\<close>

text \<open>
  The first argument holds the default-constructed \<open>SourceOptions\<close>,
  \<open>PreprocessorOptions\<close>, \<open>LexerOptions\<close>, \<open>ParserOptions\<close> and \<open>CompilationOptions\<close>,
  whose declarations are not among the sources here.
\<close>

definition createSourceOptions :: "SourceOptions \<Rightarrow> Options \<Rightarrow> SourceOptions" where
  "createSourceOptions soptions opts =
     soptions\<lparr>so_numThreads := numThreads opts,
              so_singleUnit := (singleUnit opts = Some True),
              so_onlyLint := (onlyLint opts = Some True),
              so_librariesInheritMacros := (librariesInheritMacros opts = Some True)\<rparr>"

definition createPreprocessorOptions :: "PreprocessorOptions \<Rightarrow> Options \<Rightarrow> PreprocessorOptions" where
  "createPreprocessorOptions ppoptions opts =
     (let p1 = ppoptions\<lparr>ppo_predefines := defines' opts,
                         ppo_undefines := undefines opts,
                         ppo_predefineSource := ''<command-line>''\<rparr>;
          p2 = (case maxIncludeDepth opts of
                  Some n \<Rightarrow> p1\<lparr>ppo_maxIncludeDepth := n\<rparr>
                | None \<Rightarrow> p1)
      in p2\<lparr>ppo_ignoreDirectives := foldl (\<lambda>s dv. insert dv s) (ppo_ignoreDirectives p2) (ignoreDirectives opts)\<rparr>)"

definition createLexerOptions :: "LexerOptions \<Rightarrow> Options \<Rightarrow> LexerOptions" where
  "createLexerOptions loptions opts =
     (case maxLexerErrors opts of Some n \<Rightarrow> loptions\<lparr>lo_maxErrors := n\<rparr> | None \<Rightarrow> loptions)"

definition createParserOptions :: "ParserOptions \<Rightarrow> Options \<Rightarrow> ParserOptions" where
  "createParserOptions poptions opts =
     (case maxParseDepth opts of Some n \<Rightarrow> poptions\<lparr>po_maxRecursionDepth := n\<rparr> | None \<Rightarrow> poptions)"

definition createCompilationLimits :: "CompilationOptions \<Rightarrow> Options \<Rightarrow> CompilationOptions" where
  "createCompilationLimits coptions opts =
     (let c0 = coptions\<lparr>co_suppressUnused := False, co_scriptMode := False\<rparr>;
          c1 = (case maxInstanceDepth opts of Some n \<Rightarrow> c0\<lparr>co_maxInstanceDepth := n\<rparr> | None \<Rightarrow> c0);
          c2 = (case maxGenerateSteps opts of Some n \<Rightarrow> c1\<lparr>co_maxGenerateSteps := n\<rparr> | None \<Rightarrow> c1);
          c3 = (case maxConstexprDepth opts of Some n \<Rightarrow> c2\<lparr>co_maxConstexprDepth := n\<rparr> | None \<Rightarrow> c2);
          c4 = (case maxConstexprSteps opts of Some n \<Rightarrow> c3\<lparr>co_maxConstexprSteps := n\<rparr> | None \<Rightarrow> c3);
          c5 = (case maxConstexprBacktrace opts of Some n \<Rightarrow> c4\<lparr>co_maxConstexprBacktrace := n\<rparr> | None \<Rightarrow> c4);
          c6 = (case maxInstanceArray opts of Some n \<Rightarrow> c5\<lparr>co_maxInstanceArray := n\<rparr> | None \<Rightarrow> c5);
          c7 = (case errorLimit opts of Some n \<Rightarrow> c6\<lparr>co_errorLimit := n * 2\<rparr> | None \<Rightarrow> c6)
      in c7)"

definition createCompilationFlags :: "CompilationOptions \<Rightarrow> Options \<Rightarrow> CompilationOptions" where
  "createCompilationFlags coptions opts =
     (let c1 = (if onlyLint opts = Some True
                then coptions\<lparr>co_suppressUnused := True, co_lintMode := True\<rparr> else coptions);
          c2 = (if allowHierarchicalConst opts = Some True then c1\<lparr>co_allowHierarchicalConst := True\<rparr> else c1);
          c3 = (if allowDupInitialDrivers opts = Some True then c2\<lparr>co_allowDupInitialDrivers := True\<rparr> else c2);
          c4 = (if relaxEnumConversions opts = Some True then c3\<lparr>co_relaxEnumConversions := True\<rparr> else c3);
          c5 = (if strictDriverChecking opts = Some True then c4\<lparr>co_strictDriverChecking := True\<rparr> else c4);
          c6 = (if ignoreUnknownModules opts = Some True then c5\<lparr>co_ignoreUnknownModules := True\<rparr> else c5);
          c7 = (if allowUseBeforeDeclare opts = Some True then c6\<lparr>co_allowUseBeforeDeclare := True\<rparr> else c6)
      in c7)"

definition createCompilationRest :: "Env \<Rightarrow> CompilationOptions \<Rightarrow> Options \<Rightarrow> CompilationOptions" where
  "createCompilationRest env coptions opts =
     (let c1 = coptions\<lparr>co_topModules := foldl (\<lambda>s name. insert name s) (co_topModules coptions) (topModules opts)\<rparr>;
          c2 = c1\<lparr>co_paramOverrides := co_paramOverrides c1 @ paramOverrides opts\<rparr>;
          c3 = (case minTypMax opts of
                  Some m \<Rightarrow>
                    if m = ''min'' then c2\<lparr>co_minTypMax := MinTypMax_Min\<rparr>
                    else if m = ''typ'' then c2\<lparr>co_minTypMax := MinTypMax_Typ\<rparr>
                    else if m = ''max'' then c2\<lparr>co_minTypMax := MinTypMax_Max\<rparr>
                    else c2
                | None \<Rightarrow> c2);
          c4 = (case timeScale opts of
                  Some ts \<Rightarrow> c3\<lparr>co_defaultTimeScale := TimeScale_fromString env ts\<rparr>
                | None \<Rightarrow> c3)
      in c4)"

definition createOptionBag :: "Env \<Rightarrow> Bag \<Rightarrow> Options \<Rightarrow> Bag" where
  "createOptionBag env dflt opts =
     \<lparr>bag_soptions = createSourceOptions (bag_soptions dflt) opts,
      bag_ppoptions = createPreprocessorOptions (bag_ppoptions dflt) opts,
      bag_loptions = createLexerOptions (bag_loptions dflt) opts,
      bag_poptions = createParserOptions (bag_poptions dflt) opts,
      bag_coptions =
        createCompilationRest env
          (createCompilationFlags (createCompilationLimits (bag_coptions dflt) opts) opts) opts\<rparr>"

section \<open>\<open>Driver::runPreprocessor\<close>\<close>

subsection \<open>Tokens, the printer and the preprocessor\<close>

text \<open>
  The token kinds that \<open>runPreprocessor\<close> tests for, and one constructor for every other
  kind. A token carries its kind and its raw text; \<open>withRawText\<close> replaces the raw text.
\<close>

datatype TokenKind = IntegerBase | Identifier | EndOfFile | OtherKind nat

record Token =
  kind :: TokenKind
  rawText :: string

definition withRawText :: "Token \<Rightarrow> string \<Rightarrow> Token" where
  "withRawText token text = token\<lparr>rawText := text\<rparr>"

definition eofToken :: Token where
  "eofToken = \<lparr>kind = EndOfFile, rawText = []\<rparr>"

text \<open>
  Modelled from the spec: the syntax printer (\<open>SyntaxPrinter\<close>, not among the sources here)
  collects the tokens it is given, in order; its text is rendered from them by \<open>str\<close>.
\<close>

record SyntaxPrinter =
  includeComments :: bool
  includeDirectives :: bool
  printed :: "Token list"

definition printToken :: "Token \<Rightarrow> SyntaxPrinter \<Rightarrow> SyntaxPrinter" where
  "printToken token out = out\<lparr>printed := printed out @ [token]\<rparr>"

type_synonym SourceBuffer = string

text \<open>
  Modelled from the spec: the preprocessor (\<open>Preprocessor\<close>, not among the sources here)
  is built over the option bag, takes the sources pushed on it, the last pushed on top,
  and hands out a sequence of tokens that ends in an end-of-file token.
\<close>

record Preprocessor =
  ppBag :: Bag
  ppSources :: "SourceBuffer list"

definition pushSource :: "SourceBuffer \<Rightarrow> Preprocessor \<Rightarrow> Preprocessor" where
  "pushSource b pp = pp\<lparr>ppSources := b # ppSources pp\<rparr>"

text \<open>
  The facts about tokens and the random generator that the token loop uses, taken as
  parameters: \<open>Token::valueText\<close>, \<open>SyntaxFacts::isPossibleVectorDigit\<close>, and one draw
  of the generator of type \<open>'g\<close> (\<open>std::mt19937\<close>).
\<close>

record 'g TokenFacts =
  valueText :: "Token \<Rightarrow> string"
  isPossibleVectorDigit :: "TokenKind \<Rightarrow> bool"
  generatorNext :: "'g \<Rightarrow> nat \<times> 'g"

text \<open>
  What \<open>runPreprocessor\<close> reads from outside itself: the default-constructed option
  bag, the buffers that \<open>SourceLoader::loadSources\<close> returns with the messages it hands to
  the error callback, the tokens that the preprocessor hands out for a bag and a stack
  of sources, each with the diagnostics that producing it adds, the default-constructed
  generator, the generator that \<open>createRandomGenerator\<close> seeds from system entropy,
  \<open>DiagnosticEngine::reportAll\<close> and \<open>SyntaxPrinter::str\<close>.
\<close>

record 'g PreprocessEnv =
  defaultBag :: Bag
  loadSources :: "SourceLoader \<Rightarrow> SourceBuffer list \<times> string list"
  preprocessorTokens :: "Bag \<Rightarrow> SourceBuffer list \<Rightarrow> (Token \<times> Diagnostic list) list"
  defaultGenerator :: 'g
  createRandomGenerator :: 'g
  reportAll :: "Diagnostic list \<Rightarrow> string"
  printerStr :: "SyntaxPrinter \<Rightarrow> string"

subsection \<open>\<open>generateRandomAlphanumericString\<close>\<close>

definition chars :: string where
  "chars = ''0123456789ABCDEFGHIJKLMNOPQRSTUVWXYZabcdefghijklmnopqrstuvwxyz''"

text \<open>
  Modelled from the spec: \<open>getUniformIntDist\<close> (\<open>slang/util/Random.h\<close>, not among the
  sources here) returns a value between its bounds, both included; the model takes one
  draw of the generator into that range.
\<close>

definition getUniformIntDist :: "'g TokenFacts \<Rightarrow> 'g \<Rightarrow> nat \<Rightarrow> nat \<Rightarrow> nat \<times> 'g" where
  "getUniformIntDist facts gen lo hi =
     (let (r, gen') = generatorNext facts gen in (lo + r mod (hi - lo + 1), gen'))"

fun generateRandomAlphanumericString :: "'g TokenFacts \<Rightarrow> 'g \<Rightarrow> nat \<Rightarrow> string \<times> 'g" where
  "generateRandomAlphanumericString facts gen 0 = ([], gen)"
| "generateRandomAlphanumericString facts gen (Suc len) =
     (let (i, gen1) = getUniformIntDist facts gen 0 (length chars - 1);
          (rest, gen2) = generateRandomAlphanumericString facts gen1 len
      in (chars ! i # rest, gen2))"

subsection \<open>The token loop\<close>

text \<open>
  The state of the loop of lines 451 to 477: the tokens that the preprocessor has yet to
  hand out, the diagnostics buffered so far, the printer, the generator and the
  obfuscation map. Past the end of its tokens the preprocessor hands out end-of-file.
\<close>

record 'g LoopState =
  pending :: "(Token \<times> Diagnostic list) list"
  diagnostics :: "Diagnostic list"
  output' :: SyntaxPrinter
  rng :: "'g option"
  obfuscationMap :: "string \<rightharpoonup> string"

definition nextToken :: "'g LoopState \<Rightarrow> Token \<times> 'g LoopState" where
  "nextToken st =
     (case pending st of
        [] \<Rightarrow> (eofToken, st)
      | (token, diags) # rest \<Rightarrow>
          (token, st\<lparr>pending := rest, diagnostics := diagnostics st @ diags\<rparr>))"

text \<open>
  Lines 458 to 461, the \<open>do ... while\<close> after an integer base. The loop runs forever
  when the preprocessor is at its end and end-of-file counts as a possible vector digit;
  not returning is the value \<open>None\<close>.
\<close>

partial_function (option) vectorDigits ::
  "'g TokenFacts \<Rightarrow> Token \<Rightarrow> 'g LoopState \<Rightarrow> (Token \<times> 'g LoopState) option" where
  "vectorDigits facts token st =
     (let st1 = st\<lparr>output' := printToken token (output' st)\<rparr>;
          (token', st2) = nextToken st1
      in if isPossibleVectorDigit facts (kind token') then vectorDigits facts token' st2
         else Some (token', st2))"

declare vectorDigits.simps [code]

text \<open>
  Lines 464 to 472. Reading the generator through an empty \<open>std::optional\<close> has no
  defined result: \<open>None\<close>.
\<close>

definition obfuscate :: "'g TokenFacts \<Rightarrow> Token \<Rightarrow> 'g LoopState \<Rightarrow> (Token \<times> 'g LoopState) option" where
  "obfuscate facts token st =
     (let name = valueText facts token
      in case obfuscationMap st name of
           Some translation \<Rightarrow> Some (withRawText token translation, st)
         | None \<Rightarrow>
             (case rng st of
                None \<Rightarrow> None
              | Some gen \<Rightarrow>
                  (let (newName, gen') = generateRandomAlphanumericString facts gen 16
                   in Some (withRawText token newName,
                            st\<lparr>rng := Some gen',
                               obfuscationMap := (obfuscationMap st)(name \<mapsto> newName)\<rparr>))))"

partial_function (option) tokenLoop ::
  "'g TokenFacts \<Rightarrow> bool \<Rightarrow> 'g LoopState \<Rightarrow> 'g LoopState option" where
  "tokenLoop facts obfuscateIds st =
     (let (token, st1) = nextToken st
      in Option.bind
           (if kind token = IntegerBase then vectorDigits facts token st1 else Some (token, st1))
           (\<lambda>(token, st2).
              Option.bind
                (if obfuscateIds \<and> kind token = Identifier then obfuscate facts token st2
                 else Some (token, st2))
                (\<lambda>(token, st3).
                   (let st4 = st3\<lparr>output' := printToken token (output' st3)\<rparr>
                    in if kind token = EndOfFile then Some st4
                       else tokenLoop facts obfuscateIds st4))))"

declare tokenLoop.simps [code]

subsection \<open>\<open>runPreprocessor\<close>\<close>

text \<open>Lines 429 to 449: the preprocessor, the printer and the generator.\<close>

definition startPreprocessor ::
  "Env \<Rightarrow> 'g PreprocessEnv \<Rightarrow> bool \<Rightarrow> bool \<Rightarrow> bool \<Rightarrow> bool \<Rightarrow> Driver \<Rightarrow> 'g LoopState \<times> Driver" where
  "startPreprocessor env penv inclComments inclDirectives obfuscateIds useFixedObfuscationSeed d =
     (let preprocessor = \<lparr>ppBag = createOptionBag env (defaultBag penv) (options d), ppSources = []\<rparr>;
          (buffers, errors) = loadSources penv (sourceLoader d);
          d1 = foldl (\<lambda>d' message. onLoadError message d') d errors;
          preprocessor' = foldl (\<lambda>pp b. pushSource b pp) preprocessor (rev buffers);
          out = \<lparr>includeComments = inclComments, includeDirectives = inclDirectives, printed = []\<rparr>;
          gen = (if obfuscateIds then
                   (if useFixedObfuscationSeed then Some (defaultGenerator penv)
                    else Some (createRandomGenerator penv))
                 else None)
      in (\<lparr>pending = preprocessorTokens penv (ppBag preprocessor') (ppSources preprocessor'),
           diagnostics = [], output' = out, rng = gen, obfuscationMap = Map.empty\<rparr>, d1))"

text \<open>Lines 479 to 488: the diagnostics are printed only if one of them is an error.\<close>

fun anyErrorDiagnostic :: "Diagnostic list \<Rightarrow> bool" where
  "anyErrorDiagnostic [] = False"
| "anyErrorDiagnostic (dg # dgs) = (if diagIsError dg then True else anyErrorDiagnostic dgs)"

definition reportPreprocessed :: "'g PreprocessEnv \<Rightarrow> 'g LoopState \<Rightarrow> Driver \<Rightarrow> bool \<times> Driver" where
  "reportPreprocessed penv st d =
     (if anyErrorDiagnostic (diagnostics st)
      then (False, OS_printE (None, reportAll penv (diagnostics st)) d)
      else (True, OS_print (None, printerStr penv (output' st) @ [CHR 0x0A]) d))"

definition runPreprocessor ::
  "Env \<Rightarrow> 'g PreprocessEnv \<Rightarrow> 'g TokenFacts \<Rightarrow> bool \<Rightarrow> bool \<Rightarrow> bool \<Rightarrow> bool \<Rightarrow> Driver
     \<Rightarrow> (bool \<times> Driver) option" where
  "runPreprocessor env penv facts inclComments inclDirectives obfuscateIds useFixedObfuscationSeed d =
     (let (st, d1) = startPreprocessor env penv inclComments inclDirectives obfuscateIds
                       useFixedObfuscationSeed d
      in Option.bind (tokenLoop facts obfuscateIds st)
           (\<lambda>st'. Some (reportPreprocessed penv st' d1)))"

section \<open>The specification's side\<close>

text \<open>
  The invariants that the specification places on the option values: the compatibility
  profile, when present, is \<open>vcs\<close>; the timing selector, when present, is one of
  \<open>min\<close>, \<open>typ\<close>, \<open>max\<close>; \<open>libraries-inherit-macros\<close> needs \<open>single-unit\<close>; the time
  scale, when present, parses.
\<close>

definition optionsValid :: "Env \<Rightarrow> Options \<Rightarrow> bool" where
  "optionsValid env opts \<longleftrightarrow>
     (case compat opts of Some v \<Rightarrow> v = ''vcs'' | None \<Rightarrow> True) \<and>
     (case minTypMax opts of Some m \<Rightarrow> m = ''min'' \<or> m = ''typ'' \<or> m = ''max'' | None \<Rightarrow> True) \<and>
     (librariesInheritMacros opts = Some True \<longrightarrow> singleUnit opts = Some True) \<and>
     (case timeScale opts of Some ts \<Rightarrow> TimeScale_fromString env ts \<noteq> None | None \<Rightarrow> True)"

text \<open>The driver once the \<open>vcs\<close> profile has filled in its defaults.\<close>

definition compatApplied :: "Driver \<Rightarrow> Driver" where
  "compatApplied d = (if compat (options d) = Some ''vcs'' then d\<lparr>options := applyCompatVcs (options d)\<rparr> else d)"

text \<open>The warnings printed for the include directories that do not exist.\<close>

definition missingDirWarnings :: "Env \<Rightarrow> string list \<Rightarrow> OutChunk list" where
  "missingDirWarnings env dirs =
     concat (map (\<lambda>dir. if directoryExists env dir then []
                         else [(Some warningColor, ''warning: ''),
                               (None, ''include directory '' @ [CHR 0x27] @ dir @ [CHR 0x27] @ '' does not exist''),
                               (None, [CHR 0x0A])]) dirs)"

text \<open>
  The severity overrides as the specification lists them: the mandatory ones, the ones of
  the \<open>vcs\<close> profile, and the promotions made without a profile.
\<close>

definition mandatoryOverrides :: "SeverityTable \<Rightarrow> SeverityTable" where
  "mandatoryOverrides t = t(DuplicateDefinition \<mapsto> Error, BadProceduralForce \<mapsto> Error)"

definition vcsIgnores :: "SeverityTable \<Rightarrow> SeverityTable" where
  "vcsIgnores t =
     t(StaticInitializerMustBeExplicit \<mapsto> Ignored, ImplicitConvert \<mapsto> Ignored,
       BadFinishNum \<mapsto> Ignored, NonstandardSysFunc \<mapsto> Ignored,
       NonstandardForeach \<mapsto> Ignored, NonstandardDist \<mapsto> Ignored)"

definition defaultPromotions :: "SeverityTable \<Rightarrow> SeverityTable" where
  "defaultPromotions t =
     t(IndexOOB \<mapsto> Error, RangeOOB \<mapsto> Error, RangeWidthOOB \<mapsto> Error,
       ImplicitNamedPortTypeMismatch \<mapsto> Error, SplitDistWeightOp \<mapsto> Error)"

text \<open>
  The source loader once every \<open>-v\<close> file, library directory and library extension
  of the options has been registered.
\<close>

definition loaderWithLibraries :: "Options \<Rightarrow> SourceLoader \<Rightarrow> SourceLoader" where
  "loaderWithLibraries opts l =
     l\<lparr>loaderLibraryFiles := loaderLibraryFiles l @ map (Pair []) (libraryFiles opts),
       searchDirectories := searchDirectories l @ libDirs opts,
       searchExtensions := searchExtensions l @ libExts opts\<rparr>"

text \<open>\<open>lint-only\<close> defaults \<open>ignore-unknown-modules\<close> to true when it was not set.\<close>

definition lintDefault :: "Options \<Rightarrow> Options" where
  "lintDefault opts =
     (if onlyLint opts = Some True \<and> ignoreUnknownModules opts = None
      then opts\<lparr>ignoreUnknownModules := Some True\<rparr> else opts)"

text \<open>
  The text of a command file, when the file is found and can be read, and the parse
  options that \<open>processCommandFile\<close> sets.
\<close>

definition commandFileText :: "Env \<Rightarrow> Driver \<Rightarrow> string \<Rightarrow> string option" where
  "commandFileText env d fileName =
     (case fs_canonical env (currentPath d) fileName of
        None \<Rightarrow> None
      | Some path \<Rightarrow> fileContents env path)"

definition commandFileParseOptions :: ParseOptions where
  "commandFileParseOptions =
     \<lparr>expandEnvVars = True, ignoreProgramName = True, supportComments = True,
      ignoreDuplicates = True\<rparr>"

subsection \<open>The token stream and its vector digits\<close>

text \<open>
  The tokens that the loop takes from the preprocessor: all up to and including the first
  end-of-file token, which the preprocessor supplies itself when its tokens run out; and
  the diagnostics that these tokens bring.
\<close>

fun handedOut :: "(Token \<times> Diagnostic list) list \<Rightarrow> Token list" where
  "handedOut [] = [eofToken]"
| "handedOut ((t, ds) # ps) = (if kind t = EndOfFile then [t] else t # handedOut ps)"

fun bufferedDiagnostics :: "(Token \<times> Diagnostic list) list \<Rightarrow> Diagnostic list" where
  "bufferedDiagnostics [] = []"
| "bufferedDiagnostics ((t, ds) # ps) = (if kind t = EndOfFile then ds else ds @ bufferedDiagnostics ps)"

text \<open>
  The place of a token in the stream. After an integer base, the tokens that are
  possible vector digits are its digits, until a token that is not one; every other
  token is outside the digits. An integer base is separated when it does not come
  directly after another integer base or after the digits of one. \<open>places\<close> marks the
  tokens of a stream; its second argument says whether the token before was an integer
  base or one of its digits, and its third whether that integer base was separated.
\<close>

datatype Place = OutsideDigits | DigitOfSeparatedBase | DigitOfOtherBase

fun places :: "'g TokenFacts \<Rightarrow> bool \<Rightarrow> bool \<Rightarrow> Token list \<Rightarrow> Place list" where
  "places facts afterBase separated [] = []"
| "places facts afterBase separated (t # ts) =
     (let digit = afterBase \<and> isPossibleVectorDigit facts (kind t)
      in (if \<not> digit then OutsideDigits
          else if separated then DigitOfSeparatedBase else DigitOfOtherBase)
         # places facts (digit \<or> kind t = IntegerBase)
             (if digit then separated else kind t = IntegerBase \<and> \<not> afterBase) ts)"

text \<open>
  What is printed for a token. A token is replaced when it is printed with the raw text
  that the obfuscation map holds for its text. With obfuscation on, an identifier outside
  the digits is replaced; a digit of a separated integer base is printed as it is; for a
  digit of another integer base nothing is fixed but that it is printed as it is or, being
  an identifier, replaced; any other token is printed as it is.
\<close>

definition replacedBy :: "'g TokenFacts \<Rightarrow> (string \<rightharpoonup> string) \<Rightarrow> Token \<Rightarrow> Token \<Rightarrow> bool" where
  "replacedBy facts m t p \<longleftrightarrow>
     (case m (valueText facts t) of Some s \<Rightarrow> p = withRawText t s | None \<Rightarrow> False)"

definition emittedAs :: "'g TokenFacts \<Rightarrow> bool \<Rightarrow> (string \<rightharpoonup> string) \<Rightarrow> Token \<times> Place \<Rightarrow> Token \<Rightarrow> bool" where
  "emittedAs facts obfuscateIds m tc p =
     (case tc of (t, c) \<Rightarrow>
        (case c of
           OutsideDigits \<Rightarrow>
             if obfuscateIds \<and> kind t = Identifier then replacedBy facts m t p else p = t
         | DigitOfSeparatedBase \<Rightarrow> p = t
         | DigitOfOtherBase \<Rightarrow>
             p = t \<or> (obfuscateIds \<and> kind t = Identifier \<and> replacedBy facts m t p)))"


text \<open>
  The strings that the generator gives when it is asked for \<open>n\<close> names of 16 characters
  one after the other, with the generator that this leaves.
\<close>

fun namesFrom :: "'g TokenFacts \<Rightarrow> 'g \<Rightarrow> nat \<Rightarrow> string list \<times> 'g" where
  "namesFrom facts gen 0 = ([], gen)"
| "namesFrom facts gen (Suc n) =
     (let (names, gen1) = namesFrom facts gen n;
          (newName, gen2) = generateRandomAlphanumericString facts gen1 16
      in (names @ [newName], gen2))"

definition generatedNames :: "'g TokenFacts \<Rightarrow> 'g \<Rightarrow> nat \<Rightarrow> string list" where
  "generatedNames facts gen n = fst (namesFrom facts gen n)"

text \<open>The number of identifier tokens in a stream.\<close>

definition identifierCount :: "Token list \<Rightarrow> nat" where
  "identifierCount ts = length (filter (\<lambda>t. kind t = Identifier) ts)"

text \<open>A 16-character string over the 62 glyphs, and a map that holds only such strings.\<close>

definition alphanumeric16 :: "string \<Rightarrow> bool" where
  "alphanumeric16 s \<longleftrightarrow> length s = 16 \<and> set s \<subseteq> set chars"

definition alphanumericMap :: "(string \<rightharpoonup> string) \<Rightarrow> bool" where
  "alphanumericMap m \<longleftrightarrow> (\<forall>name s. m name = Some s \<longrightarrow> alphanumeric16 s)"

text \<open>
  For the proofs about the loop: the digits that follow an integer base, the token that
  ends them with its diagnostics, and the tokens left; the second half of the loop body
  (lines 464 to 476); the names that the generator has given so far, of \<open>limit\<close> that
  it may be asked for with \<open>ahead\<close> still to come; and what the loop leaves when it is run
  from a state.
\<close>

fun digitRun :: "'g TokenFacts \<Rightarrow> (Token \<times> Diagnostic list) list \<Rightarrow> Token list \<times> Token \<times> Diagnostic list \<times> (Token \<times> Diagnostic list) list" where
  "digitRun facts [] = ([], eofToken, [], [])"
| "digitRun facts ((t, ds) # ps) =
     (if isPossibleVectorDigit facts (kind t)
      then (case digitRun facts ps of (digits, stop, diags, rest) \<Rightarrow> (t # digits, stop, ds @ diags, rest))
      else ([], t, ds, ps))"

definition afterFetch :: "'g TokenFacts \<Rightarrow> bool \<Rightarrow> Token \<Rightarrow> 'g LoopState \<Rightarrow> 'g LoopState option" where
  "afterFetch facts obfuscateIds token st2 =
     Option.bind
       (if obfuscateIds \<and> kind token = Identifier then obfuscate facts token st2
        else Some (token, st2))
       (\<lambda>(token, st3).
          (let st4 = st3\<lparr>output' := printToken token (output' st3)\<rparr>
           in if kind token = EndOfFile then Some st4
              else tokenLoop facts obfuscateIds st4))"

definition namesSoFar :: "'g TokenFacts \<Rightarrow> 'g \<Rightarrow> nat \<Rightarrow> nat \<Rightarrow> 'g LoopState \<Rightarrow> bool" where
  "namesSoFar facts gen limit ahead st \<longleftrightarrow>
     (\<exists>n. n + ahead \<le> limit \<and> rng st = Some (snd (namesFrom facts gen n)) \<and>
          ran (obfuscationMap st) \<subseteq> set (generatedNames facts gen n) \<and>
          (distinct (generatedNames facts gen limit) \<longrightarrow>
             inj_on (obfuscationMap st) (dom (obfuscationMap st))))"

definition loopPostcondition :: "'g TokenFacts \<Rightarrow> bool \<Rightarrow> 'g LoopState \<Rightarrow> 'g LoopState \<Rightarrow> bool" where
  "loopPostcondition facts obfuscateIds st st' \<longleftrightarrow>
     obfuscationMap st \<subseteq>\<^sub>m obfuscationMap st' \<and>
     alphanumericMap (obfuscationMap st') \<and>
     diagnostics st' = diagnostics st @ bufferedDiagnostics (pending st) \<and>
     (\<exists>outs. printed (output' st') = printed (output' st) @ outs \<and>
        length outs = length (handedOut (pending st)) \<and>
        (\<forall>afterBase.
           list_all2 (emittedAs facts obfuscateIds (obfuscationMap st'))
             (zip (handedOut (pending st)) (places facts afterBase False (handedOut (pending st))))
             outs)) \<and>
     (\<forall>gen limit. namesSoFar facts gen limit (identifierCount (handedOut (pending st))) st \<longrightarrow>
        namesSoFar facts gen limit 0 st')"
section \<open>Concrete inputs\<close>

text \<open>Options with nothing set, a fresh driver, and an environment to run them in.\<close>

definition exampleOptions :: Options where
  "exampleOptions =
     \<lparr>includeDirs = [], includeSystemDirs = [], libDirs = [], libExts = [], excludeExts = {},
      defines' = [], undefines = [], maxIncludeDepth = None, librariesInheritMacros = None,
      ignoreDirectives = [], maxParseDepth = None, maxLexerErrors = None, numThreads = None,
      maxInstanceDepth = None, maxGenerateSteps = None, maxConstexprDepth = None,
      maxConstexprSteps = None, maxConstexprBacktrace = None, maxInstanceArray = None,
      compat = None, minTypMax = None, timeScale = None, allowUseBeforeDeclare = None,
      ignoreUnknownModules = None, relaxEnumConversions = None, allowHierarchicalConst = None,
      allowDupInitialDrivers = None, strictDriverChecking = None, onlyLint = None,
      topModules = [], paramOverrides = [], warningOptions = [], colorDiags = None,
      diagColumn = None, diagLocation = None, diagSourceLine = None, diagOptionName = None,
      diagIncludeStack = None, diagMacroExpansion = None, diagHierarchy = None,
      errorLimit = None, suppressWarningsPaths = [], suppressMacroWarningsPaths = [],
      singleUnit = None, libraryFiles = []\<rparr>"

definition exampleDriver :: Driver where
  "exampleDriver =
     \<lparr>options = exampleOptions, anyFailedLoads = False,
      sourceManager = \<lparr>userDirectories = [], systemDirectories = []\<rparr>,
      sourceLoader = \<lparr>loaderFiles = [], loaderLibraryFiles = [], searchDirectories = [],
                      searchExtensions = []\<rparr>,
      diagEngine = \<lparr>severityTable = Map.empty, engineErrorLimit = 0, ignorePaths = [],
                    ignoreMacroPaths = [], issued = []\<rparr>,
      diagClient = \<lparr>showColors = False, showColumn = False, showLocation = False,
                    showSourceLine = False, showOptionName = False, showIncludeStack = False,
                    showMacroExpansion = False, showHierarchyInstance = False\<rparr>,
      cmdLineErrors = [], currentPath = ''/work'', stderrText = [], stdoutText = [],
      stderrColorsEnabled = False, stdoutColorsEnabled = False\<rparr>"

definition exampleEnv :: Env where
  "exampleEnv =
     \<lparr>fileSupportsColors_stderr = False, fileSupportsColors_stdout = False,
      TimeScale_fromString = (\<lambda>s. if s = ''1ns/1ps'' then Some (''1ns'', ''1ps'') else None),
      directoryExists = (\<lambda>p. p = ''inc''),
      fs_canonical = (\<lambda>cur p. if cur = ''/work'' \<and> p = ''cmd/args.f'' \<or> p = ''/work/cmd/args.f''
                               then Some ''/work/cmd/args.f'' else None),
      fs_parent_path = (\<lambda>p. if p = ''/work/cmd/args.f'' then ''/work/cmd'' else []),
      currentPathReadable = (\<lambda>p. p \<noteq> ''/gone''),
      directoryEnterable = (\<lambda>p. p = ''/work'' \<or> p = ''/work/cmd'' \<or> p = ''/elsewhere''),
      fileContents = (\<lambda>p. if p = ''/work/cmd/args.f'' then Some ''--bogus'' else None),
      cmdLine_parse = (\<lambda>args po d.
         (False, d\<lparr>cmdLineErrors := cmdLineErrors d @ [''unknown command line argument''],
                   currentPath := ''/elsewhere''\<rparr>)),
      setDefaultWarnings = (\<lambda>t. Map.empty),
      setWarningOptions = (\<lambda>ws t. ([], if ''index-oob'' \<in> set ws then t(IndexOOB \<mapsto> Warning) else t)),
      hasFiles = (\<lambda>l. loaderFiles l \<noteq> [] \<or> loaderLibraryFiles l \<noteq> [])\<rparr>"

definition exampleDefaults :: Bag where
  "exampleDefaults =
     \<lparr>bag_soptions = \<lparr>so_numThreads = None, so_singleUnit = False, so_onlyLint = False,
                       so_librariesInheritMacros = False\<rparr>,
      bag_ppoptions = \<lparr>ppo_predefines = [], ppo_undefines = [], ppo_predefineSource = [],
                        ppo_maxIncludeDepth = 1024, ppo_ignoreDirectives = {}\<rparr>,
      bag_loptions = \<lparr>lo_maxErrors = 16\<rparr>,
      bag_poptions = \<lparr>po_maxRecursionDepth = 1024\<rparr>,
      bag_coptions = \<lparr>co_maxInstanceDepth = 128, co_maxGenerateSteps = 131072,
                       co_maxConstexprDepth = 128, co_maxConstexprSteps = 100000,
                       co_maxConstexprBacktrace = 10, co_maxInstanceArray = 65535,
                       co_errorLimit = 64, co_suppressUnused = True, co_scriptMode = True,
                       co_lintMode = False, co_allowHierarchicalConst = False,
                       co_allowDupInitialDrivers = False, co_relaxEnumConversions = False,
                       co_strictDriverChecking = False, co_ignoreUnknownModules = False,
                       co_allowUseBeforeDeclare = False, co_topModules = {},
                       co_paramOverrides = [], co_minTypMax = MinTypMax_Typ,
                       co_defaultTimeScale = None\<rparr>\<rparr>"

text \<open>A driver that was given one positional file and \<open>-W index-oob\<close>.\<close>

definition driverWithFile :: Driver where
  "driverWithFile =
     positionalArg ''top.sv''
       (exampleDriver\<lparr>options := exampleOptions\<lparr>warningOptions := [''index-oob'']\<rparr>\<rparr>)"

text \<open>Drivers as the command line leaves them for some invocations.\<close>

definition driverInheritMacros :: Driver where
  "driverInheritMacros =
     exampleDriver\<lparr>options := exampleOptions\<lparr>librariesInheritMacros := Some True\<rparr>\<rparr>"

definition driverCompatFoo :: Driver where
  "driverCompatFoo =
     exampleDriver\<lparr>options := exampleOptions\<lparr>compat := Some ''foo'',
                                                librariesInheritMacros := Some True\<rparr>\<rparr>"

definition driverCompatVcs :: Driver where
  "driverCompatVcs =
     positionalArg ''top.sv''
       (exampleDriver\<lparr>options := exampleOptions\<lparr>compat := Some ''vcs'',
                                                   allowHierarchicalConst := Some False\<rparr>\<rparr>)"

definition driverTimingFast :: Driver where
  "driverTimingFast = exampleDriver\<lparr>options := exampleOptions\<lparr>minTypMax := Some ''fast''\<rparr>\<rparr>"

definition driverFailedLoad :: Driver where
  "driverFailedLoad = exampleDriver\<lparr>anyFailedLoads := True\<rparr>"



text \<open>
  Token kinds other than the three that the loop tests for, facts about tokens with a
  small generator, and an environment whose preprocessor hands out a given token list.
\<close>

definition integerLiteral :: TokenKind where "integerLiteral = OtherKind 0"

definition question :: TokenKind where "question = OtherKind 1"

definition colon :: TokenKind where "colon = OtherKind 2"

definition semicolon :: TokenKind where "semicolon = OtherKind 3"

definition exampleFacts :: "nat TokenFacts" where
  "exampleFacts =
     \<lparr>valueText = rawText,
      isPossibleVectorDigit = (\<lambda>k. k = Identifier \<or> k = integerLiteral \<or> k = question),
      generatorNext = (\<lambda>g. (g, g + 7))\<rparr>"

definition tok :: "TokenKind \<Rightarrow> string \<Rightarrow> Token \<times> Diagnostic list" where
  "tok k s = (\<lparr>kind = k, rawText = s\<rparr>, [])"

definition base :: "string \<Rightarrow> Token \<times> Diagnostic list" where
  "base s = tok IntegerBase (CHR 0x27 # s)"

definition examplePreprocessEnv :: "(Token \<times> Diagnostic list) list \<Rightarrow> nat PreprocessEnv" where
  "examplePreprocessEnv toks =
     \<lparr>defaultBag = exampleDefaults,
      loadSources = (\<lambda>l. (loaderFiles l, [])),
      preprocessorTokens = (\<lambda>bag sources. toks),
      defaultGenerator = 0,
      createRandomGenerator = 4711,
      reportAll = (\<lambda>dgs. concat (map (\<lambda>dg. if diagIsError dg then ''error;'' else ''warning;'') dgs)),
      printerStr = (\<lambda>out. concat (map (\<lambda>t. rawText t @ '' '') (printed out)))\<rparr>"



definition conditionalTokens :: "(Token \<times> Diagnostic list) list" where
  "conditionalTokens =
     [tok integerLiteral ''1'', base ''b'', tok integerLiteral ''1'', tok question ''?'',
      tok integerLiteral ''8'', base ''h'', tok Identifier ''AB'', tok colon '':'',
      tok integerLiteral ''8'', base ''h'', tok Identifier ''CD'']"

definition errorTokens :: "(Token \<times> Diagnostic list) list" where
  "errorTokens =
     [tok Identifier ''m'',
      (\<lparr>kind = semicolon, rawText = '';''\<rparr>, [\<lparr>diagCode = OtherDiag 1, diagIsError = True\<rparr>])]"

text \<open>
  A run of \<open>runPreprocessor\<close> with the fixed seed on one of these token lists: the
  result, and what was printed to the standard output and to the standard error.
\<close>

definition runExample :: "nat TokenFacts \<Rightarrow> (Token \<times> Diagnostic list) list \<Rightarrow> bool \<Rightarrow> (bool \<times> OutChunk list \<times> OutChunk list) option" where
  "runExample facts toks obfuscateIds =
     map_option (\<lambda>(ok, d'). (ok, stdoutText d', stderrText d'))
       (runPreprocessor exampleEnv (examplePreprocessEnv toks) facts False False obfuscateIds True
          driverWithFile)"

section \<open>Properties of \<open>Driver::processOptions\<close> and \<open>Driver::createOptionBag\<close>\<close>

lemma printError_simps:
  "options (printError m d) = options d"
  "anyFailedLoads (printError m d) = anyFailedLoads d"
  "sourceManager (printError m d) = sourceManager d"
  "sourceLoader (printError m d) = sourceLoader d"
  "diagEngine (printError m d) = diagEngine d"
  "diagClient (printError m d) = diagClient d"
  "currentPath (printError m d) = currentPath d"
  "stdoutText (printError m d) = stdoutText d"
  "stderrText (printError m d) = stderrText d @ [(Some errorColor, ''error: ''), (None, m), (None, [CHR 0x0A])]"
  by (simp_all add: printError_def OS_printE_def)

lemma printWarning_simps:
  "options (printWarning m d) = options d"
  "anyFailedLoads (printWarning m d) = anyFailedLoads d"
  "sourceManager (printWarning m d) = sourceManager d"
  "sourceLoader (printWarning m d) = sourceLoader d"
  "diagEngine (printWarning m d) = diagEngine d"
  "diagClient (printWarning m d) = diagClient d"
  "currentPath (printWarning m d) = currentPath d"
  "stdoutText (printWarning m d) = stdoutText d"
  "stderrText (printWarning m d) = stderrText d @ [(Some warningColor, ''warning: ''), (None, m), (None, [CHR 0x0A])]"
  by (simp_all add: printWarning_def OS_printE_def)

lemma applyCompatVcs_simps:
  "compat (applyCompatVcs opts) = compat opts"
  "minTypMax (applyCompatVcs opts) = minTypMax opts"
  "librariesInheritMacros (applyCompatVcs opts) = librariesInheritMacros opts"
  "singleUnit (applyCompatVcs opts) = singleUnit opts"
  "timeScale (applyCompatVcs opts) = timeScale opts"
  "warningOptions (applyCompatVcs opts) = warningOptions opts"
  "errorLimit (applyCompatVcs opts) = errorLimit opts"
  "libraryFiles (applyCompatVcs opts) = libraryFiles opts"
  "libDirs (applyCompatVcs opts) = libDirs opts"
  "libExts (applyCompatVcs opts) = libExts opts"
  "includeDirs (applyCompatVcs opts) = includeDirs opts"
  "includeSystemDirs (applyCompatVcs opts) = includeSystemDirs opts"
  "onlyLint (applyCompatVcs opts) = onlyLint opts"
  "ignoreUnknownModules (applyCompatVcs opts) = ignoreUnknownModules opts"
  "suppressWarningsPaths (applyCompatVcs opts) = suppressWarningsPaths opts"
  "suppressMacroWarningsPaths (applyCompatVcs opts) = suppressMacroWarningsPaths opts"
  "excludeExts (applyCompatVcs opts) = excludeExts opts"
  by (simp_all add: applyCompatVcs_def Let_def)

lemma validateOptions_valid:
  "optionsValid env (options d) \<Longrightarrow> validateOptions env d = Inr (compatApplied d)"
  by (auto simp: optionsValid_def validateOptions_def validateCompat_def validateTiming_def
      validateSingleUnit_def validateTimeScale_def compatApplied_def applyCompatVcs_simps
      split: option.splits)

lemma validateOptions_Inr:
  "validateOptions env d = Inr d' \<Longrightarrow> optionsValid env (options d) \<and> d' = compatApplied d"
  by (auto simp: optionsValid_def validateOptions_def validateCompat_def validateTiming_def
      validateSingleUnit_def validateTimeScale_def compatApplied_def applyCompatVcs_simps
      split: option.splits if_splits sum.splits)

lemma registerIncludeDir_user:
  "registerIncludeDir addUserDirectory env d dir =
     d\<lparr>sourceManager := (sourceManager d)\<lparr>userDirectories :=
           userDirectories (sourceManager d) @ filter (directoryExists env) [dir]\<rparr>,
        stderrText := stderrText d @ missingDirWarnings env [dir]\<rparr>"
  by (simp add: registerIncludeDir_def addUserDirectory_def missingDirWarnings_def
      printWarning_def OS_printE_def quoted_def)

lemma registerIncludeDir_system:
  "registerIncludeDir addSystemDirectory env d dir =
     d\<lparr>sourceManager := (sourceManager d)\<lparr>systemDirectories :=
           systemDirectories (sourceManager d) @ filter (directoryExists env) [dir]\<rparr>,
        stderrText := stderrText d @ missingDirWarnings env [dir]\<rparr>"
  by (simp add: registerIncludeDir_def addSystemDirectory_def missingDirWarnings_def
      printWarning_def OS_printE_def quoted_def)

lemma missingDirWarnings_Cons:
  "missingDirWarnings env (dir # dirs) = missingDirWarnings env [dir] @ missingDirWarnings env dirs"
  by (simp add: missingDirWarnings_def)

lemma registerIncludeDir_user_fold:
  "foldl (registerIncludeDir addUserDirectory env) d dirs =
     d\<lparr>sourceManager := (sourceManager d)\<lparr>userDirectories :=
           userDirectories (sourceManager d) @ filter (directoryExists env) dirs\<rparr>,
        stderrText := stderrText d @ missingDirWarnings env dirs\<rparr>"
proof (induction dirs arbitrary: d)
  case Nil
  show ?case by (simp add: missingDirWarnings_def)
next
  case (Cons dir dirs)
  let ?F = "registerIncludeDir addUserDirectory env"
  have "foldl ?F d (dir # dirs) = foldl ?F (?F d dir) dirs"
    by (simp only: foldl_Cons)
  also have "\<dots> = (?F d dir)\<lparr>sourceManager := (sourceManager (?F d dir))\<lparr>userDirectories :=
           userDirectories (sourceManager (?F d dir)) @ filter (directoryExists env) dirs\<rparr>,
        stderrText := stderrText (?F d dir) @ missingDirWarnings env dirs\<rparr>"
    by (rule Cons.IH)
  also have "\<dots> = d\<lparr>sourceManager := (sourceManager d)\<lparr>userDirectories :=
           userDirectories (sourceManager d) @ filter (directoryExists env) (dir # dirs)\<rparr>,
        stderrText := stderrText d @ missingDirWarnings env (dir # dirs)\<rparr>"
    by (simp add: registerIncludeDir_user missingDirWarnings_Cons [of env dir dirs])
  finally show ?case .
qed

lemma registerIncludeDir_system_fold:
  "foldl (registerIncludeDir addSystemDirectory env) d dirs =
     d\<lparr>sourceManager := (sourceManager d)\<lparr>systemDirectories :=
           systemDirectories (sourceManager d) @ filter (directoryExists env) dirs\<rparr>,
        stderrText := stderrText d @ missingDirWarnings env dirs\<rparr>"
proof (induction dirs arbitrary: d)
  case Nil
  show ?case by (simp add: missingDirWarnings_def)
next
  case (Cons dir dirs)
  let ?F = "registerIncludeDir addSystemDirectory env"
  have "foldl ?F d (dir # dirs) = foldl ?F (?F d dir) dirs"
    by (simp only: foldl_Cons)
  also have "\<dots> = (?F d dir)\<lparr>sourceManager := (sourceManager (?F d dir))\<lparr>systemDirectories :=
           systemDirectories (sourceManager (?F d dir)) @ filter (directoryExists env) dirs\<rparr>,
        stderrText := stderrText (?F d dir) @ missingDirWarnings env dirs\<rparr>"
    by (rule Cons.IH)
  also have "\<dots> = d\<lparr>sourceManager := (sourceManager d)\<lparr>systemDirectories :=
           systemDirectories (sourceManager d) @ filter (directoryExists env) (dir # dirs)\<rparr>,
        stderrText := stderrText d @ missingDirWarnings env (dir # dirs)\<rparr>"
    by (simp add: registerIncludeDir_system missingDirWarnings_Cons [of env dir dirs])
  finally show ?case .
qed

lemma registerLibraryFiles_eq:
  "registerLibraryFiles strs l = l\<lparr>loaderLibraryFiles := loaderLibraryFiles l @ map (Pair []) strs\<rparr>"
  unfolding registerLibraryFiles_def
  by (induction strs arbitrary: l) (simp_all add: addLibraryFiles_def)

lemma registerPaths_simps:
  "options (registerPaths env d) = lintDefault (options d)"
  "anyFailedLoads (registerPaths env d) = anyFailedLoads d"
  "diagEngine (registerPaths env d) = diagEngine d"
  "diagClient (registerPaths env d) = diagClient d"
  "currentPath (registerPaths env d) = currentPath d"
  "stdoutText (registerPaths env d) = stdoutText d"
  "sourceLoader (registerPaths env d) = loaderWithLibraries (options d) (sourceLoader d)"
  "stderrText (registerPaths env d) =
     stderrText d @ missingDirWarnings env (includeDirs (options d))
                  @ missingDirWarnings env (includeSystemDirs (options d))"
  by (simp_all add: registerPaths_def Let_def lintDefault_def registerIncludeDir_user_fold
      registerIncludeDir_system_fold registerLibraryFiles_eq loaderWithLibraries_def
      addSearchDirectories_def addSearchExtensions_def)

lemma enableColors_simps:
  "options (snd (enableColors env d)) = options d"
  "anyFailedLoads (snd (enableColors env d)) = anyFailedLoads d"
  "sourceManager (snd (enableColors env d)) = sourceManager d"
  "sourceLoader (snd (enableColors env d)) = sourceLoader d"
  "diagEngine (snd (enableColors env d)) = diagEngine d"
  "diagClient (snd (enableColors env d)) = diagClient d"
  "currentPath (snd (enableColors env d)) = currentPath d"
  "stdoutText (snd (enableColors env d)) = stdoutText d"
  "stderrText (snd (enableColors env d)) = stderrText d"
  by (simp_all add: enableColors_def Let_def)

lemma compatApplied_simps:
  "anyFailedLoads (compatApplied d) = anyFailedLoads d"
  "sourceManager (compatApplied d) = sourceManager d"
  "sourceLoader (compatApplied d) = sourceLoader d"
  "diagEngine (compatApplied d) = diagEngine d"
  "diagClient (compatApplied d) = diagClient d"
  "currentPath (compatApplied d) = currentPath d"
  "stdoutText (compatApplied d) = stdoutText d"
  "stderrText (compatApplied d) = stderrText d"
  "options (compatApplied d) = (if compat (options d) = Some ''vcs'' then applyCompatVcs (options d) else options d)"
  by (simp_all add: compatApplied_def)

lemma lintDefault_simps:
  "compat (lintDefault opts) = compat opts"
  "warningOptions (lintDefault opts) = warningOptions opts"
  "errorLimit (lintDefault opts) = errorLimit opts"
  "suppressWarningsPaths (lintDefault opts) = suppressWarningsPaths opts"
  "suppressMacroWarningsPaths (lintDefault opts) = suppressMacroWarningsPaths opts"
  "allowHierarchicalConst (lintDefault opts) = allowHierarchicalConst opts"
  "allowUseBeforeDeclare (lintDefault opts) = allowUseBeforeDeclare opts"
  "relaxEnumConversions (lintDefault opts) = relaxEnumConversions opts"
  by (simp_all add: lintDefault_def)

lemma loaderWithLibraries_compat:
  "loaderWithLibraries (applyCompatVcs opts) l = loaderWithLibraries opts l"
  by (simp add: loaderWithLibraries_def applyCompatVcs_simps)

lemma processOptions_valid:
  assumes "optionsValid env (options d)"
  shows "processOptions env d =
    (let d3 = registerPaths env (compatApplied (snd (enableColors env d)))
     in if anyFailedLoads d then (False, d3)
        else if \<not> hasFiles env (loaderWithLibraries (options d) (sourceLoader d))
        then (False, printError ''no input files'' d3)
        else (True, d3\<lparr>diagClient := configureClient (fst (enableColors env d)) (options d3) (diagClient d3),
                        diagEngine := configureEngine env (currentPath d) (options d3) (diagEngine d)\<rparr>))"
proof -
  have v: "validateOptions env (snd (enableColors env d)) = Inr (compatApplied (snd (enableColors env d)))"
    using assms by (intro validateOptions_valid) (simp add: enableColors_simps)
  show ?thesis
    by (simp add: processOptions_def split_beta v Let_def registerPaths_simps compatApplied_simps
        enableColors_simps applyCompatVcs_simps loaderWithLibraries_compat)
qed

lemma processOptions_invalid:
  assumes "\<not> optionsValid env (options d)"
  shows "\<exists>d'. processOptions env d = (False, d') \<and>
           validateOptions env (snd (enableColors env d)) = Inl d'"
proof (cases "validateOptions env (snd (enableColors env d))")
  case (Inl d')
  then show ?thesis by (simp add: processOptions_def split_beta)
next
  case (Inr d2)
  from validateOptions_Inr [OF this] assms show ?thesis by (simp add: enableColors_simps)
qed

lemma issue_fold_simps:
  "severityTable (foldl (\<lambda>e' dg. issue dg e') e ds) = severityTable e"
  "engineErrorLimit (foldl (\<lambda>e' dg. issue dg e') e ds) = engineErrorLimit e"
  by (induction ds arbitrary: e) (simp_all add: issue_def)

lemma addIgnorePath_fold_simps:
  "severityTable (foldl (\<lambda>e' pathStr. (let path = canonicalOrEmpty env cur pathStr
       in if path \<noteq> [] then addIgnorePath path e' else e')) e ps) = severityTable e"
  "engineErrorLimit (foldl (\<lambda>e' pathStr. (let path = canonicalOrEmpty env cur pathStr
       in if path \<noteq> [] then addIgnorePath path e' else e')) e ps) = engineErrorLimit e"
  by (induction ps arbitrary: e) (simp_all add: addIgnorePath_def Let_def)

lemma addIgnoreMacroPath_fold_simps:
  "severityTable (foldl (\<lambda>e' pathStr. (let path = canonicalOrEmpty env cur pathStr
       in if path \<noteq> [] then addIgnoreMacroPath path e' else e')) e ps) = severityTable e"
  "engineErrorLimit (foldl (\<lambda>e' pathStr. (let path = canonicalOrEmpty env cur pathStr
       in if path \<noteq> [] then addIgnoreMacroPath path e' else e')) e ps) = engineErrorLimit e"
  by (induction ps arbitrary: e) (simp_all add: addIgnoreMacroPath_def Let_def)

lemma addSuppressPaths_simps:
  "severityTable (addSuppressPaths env cur opts e) = severityTable e"
  "engineErrorLimit (addSuppressPaths env cur opts e) = engineErrorLimit e"
  unfolding addSuppressPaths_def Let_def
  by (simp_all only: addIgnorePath_fold_simps [unfolded Let_def]
      addIgnoreMacroPath_fold_simps [unfolded Let_def])

lemma setSeverities_simps:
  "severityTable (setSeverities opts e) =
     (if compat opts = Some ''vcs'' then vcsIgnores else defaultPromotions)
       (mandatoryOverrides (severityTable e))"
  "engineErrorLimit (setSeverities opts e) = engineErrorLimit e"
  by (simp_all add: setSeverities_def setSeverity_def Let_def vcsIgnores_def defaultPromotions_def
      mandatoryOverrides_def)

lemma applyWarningOptions_simps:
  "severityTable (applyWarningOptions env opts e) =
     snd (setWarningOptions env (warningOptions opts) (severityTable e))"
  "engineErrorLimit (applyWarningOptions env opts e) = engineErrorLimit e"
  by (simp_all add: applyWarningOptions_def split_beta issue_fold_simps)

lemma configureEngine_simps:
  "severityTable (configureEngine env cur opts e) =
     snd (setWarningOptions env (warningOptions opts)
       ((if compat opts = Some ''vcs'' then vcsIgnores else defaultPromotions)
          (mandatoryOverrides (setDefaultWarnings env (severityTable e)))))"
  "engineErrorLimit (configureEngine env cur opts e) =
     sint (case errorLimit opts of Some n \<Rightarrow> n | None \<Rightarrow> 20)"
  by (simp_all add: configureEngine_def Let_def applyWarningOptions_simps addSuppressPaths_simps
      setSeverities_simps setErrorLimit_def)

lemma processOptions_success:
  assumes "processOptions env d = (True, d')"
  shows "optionsValid env (options d)"
    and "diagEngine d' = configureEngine env (currentPath d)
           (lintDefault (options (compatApplied d))) (diagEngine d)"
proof -
  show v: "optionsValid env (options d)"
    using assms processOptions_invalid [of env d] by auto
  show "diagEngine d' = configureEngine env (currentPath d)
           (lintDefault (options (compatApplied d))) (diagEngine d)"
    using assms processOptions_valid [OF v]
    by (auto simp: Let_def registerPaths_simps compatApplied_simps enableColors_simps
        split: if_splits)
qed

text \<open>
  Claim C1. After a successful \<open>processOptions\<close>, the severity table of the diagnostic
  engine is the table obtained by applying, in this order, \<open>setDefaultWarnings\<close>, the
  mandatory overrides, the \<open>vcs\<close> ignores when the profile is \<open>vcs\<close> and the default
  promotions otherwise, and last the user's \<open>-W\<close> options; so whatever the \<open>-W\<close> options
  decide for a diagnostic code, whatever the table before them, is its final severity.
\<close>

theorem severity_table_after_processOptions:
  assumes "processOptions env d = (True, d')"
  shows "severityTable (diagEngine d') =
           snd (setWarningOptions env (warningOptions (options d))
             ((if compat (options d) = Some ''vcs'' then vcsIgnores else defaultPromotions)
                (mandatoryOverrides (setDefaultWarnings env (severityTable (diagEngine d))))))
         \<and> ((\<forall>t. snd (setWarningOptions env (warningOptions (options d)) t) c = s)
              \<longrightarrow> severityTable (diagEngine d') c = s)"
proof -
  have "severityTable (diagEngine d') =
           snd (setWarningOptions env (warningOptions (options d))
             ((if compat (options d) = Some ''vcs'' then vcsIgnores else defaultPromotions)
                (mandatoryOverrides (setDefaultWarnings env (severityTable (diagEngine d))))))"
    by (simp add: processOptions_success(2) [OF assms] configureEngine_simps lintDefault_simps
        compatApplied_simps applyCompatVcs_simps)
  then show ?thesis by simp
qed

lemma processOptions_options:
  "allowHierarchicalConst (options (snd (processOptions env d))) =
     allowHierarchicalConst (options (compatApplied d))"
  "allowUseBeforeDeclare (options (snd (processOptions env d))) =
     allowUseBeforeDeclare (options (compatApplied d))"
  "relaxEnumConversions (options (snd (processOptions env d))) =
     relaxEnumConversions (options (compatApplied d))"
proof -
  have inl: "validateOptions env d1 = Inl d' \<Longrightarrow> compat (options d1) = Some ''vcs''
      \<Longrightarrow> options d' = applyCompatVcs (options d1)" for d1 d'
    by (auto simp: validateOptions_def validateCompat_def validateTiming_def
        validateSingleUnit_def validateTimeScale_def printError_simps
        split: option.splits if_splits sum.splits)
  have inl': "validateOptions env d1 = Inl d' \<Longrightarrow> compat (options d1) \<noteq> Some ''vcs''
      \<Longrightarrow> options d' = options d1" for d1 d'
    by (auto simp: validateOptions_def validateCompat_def validateTiming_def
        validateSingleUnit_def validateTimeScale_def printError_simps
        split: option.splits if_splits sum.splits)
  have "options (snd (processOptions env d)) = options (compatApplied d) \<or>
        options (snd (processOptions env d)) = lintDefault (options (compatApplied d))"
  proof (cases "optionsValid env (options d)")
    case True
    show ?thesis
      by (simp add: processOptions_valid [OF True] Let_def registerPaths_simps printError_simps
          compatApplied_simps enableColors_simps)
  next
    case False
    from processOptions_invalid [OF False] obtain d' where
      p: "processOptions env d = (False, d')" and
      v: "validateOptions env (snd (enableColors env d)) = Inl d'" by blast
    show ?thesis
      using inl [OF v] inl' [OF v]
      by (cases "compat (options d) = Some ''vcs''")
         (simp_all add: p enableColors_simps compatApplied_simps)
  qed
  then show
    "allowHierarchicalConst (options (snd (processOptions env d))) =
       allowHierarchicalConst (options (compatApplied d))"
    "allowUseBeforeDeclare (options (snd (processOptions env d))) =
       allowUseBeforeDeclare (options (compatApplied d))"
    "relaxEnumConversions (options (snd (processOptions env d))) =
       relaxEnumConversions (options (compatApplied d))"
    by (auto simp: lintDefault_simps)
qed

lemma applyCompatVcs_defaults:
  "allowHierarchicalConst (applyCompatVcs opts) =
     (case allowHierarchicalConst opts of None \<Rightarrow> Some True | Some b \<Rightarrow> Some b)"
  "allowUseBeforeDeclare (applyCompatVcs opts) =
     (case allowUseBeforeDeclare opts of None \<Rightarrow> Some True | Some b \<Rightarrow> Some b)"
  "relaxEnumConversions (applyCompatVcs opts) =
     (case relaxEnumConversions opts of None \<Rightarrow> Some True | Some b \<Rightarrow> Some b)"
  by (auto simp: applyCompatVcs_def Let_def split: option.splits)

lemma missingDirWarnings_no_compat_error:
  "(None, ''invalid value for compat option: '' @ [CHR 0x27] @ v @ [CHR 0x27])
     \<notin> set (missingDirWarnings env dirs)"
  by (induction dirs) (simp_all add: missingDirWarnings_def)

lemma validateOptions_Inl_vcs:
  assumes "validateOptions env d1 = Inl d'" and "compat (options d1) = Some ''vcs''"
  shows "\<exists>m. stderrText d' = stderrText d1 @ [(Some errorColor, ''error: ''), (None, m), (None, [CHR 0x0A])]
            \<and> (\<forall>v. m \<noteq> ''invalid value for compat option: '' @ [CHR 0x27] @ v @ [CHR 0x27])"
  using assms
  by (auto simp: validateOptions_def validateCompat_def validateTiming_def
        validateSingleUnit_def validateTimeScale_def printError_simps quoted_def
        split: option.splits if_splits sum.splits)

lemma processOptions_fst:
  "fst (processOptions env d) \<longleftrightarrow>
     optionsValid env (options d) \<and> \<not> anyFailedLoads d \<and>
     hasFiles env (loaderWithLibraries (options d) (sourceLoader d))"
proof (cases "optionsValid env (options d)")
  case True
  show ?thesis by (simp add: processOptions_valid [OF True] True Let_def)
next
  case False
  from processOptions_invalid [OF False] False show ?thesis by auto
qed

lemma processOptions_vcs_stderr:
  assumes "compat (options d) = Some ''vcs''"
  shows "\<exists>out. stderrText (snd (processOptions env d)) = stderrText d @ out \<and>
           (\<forall>v. (None, ''invalid value for compat option: '' @ [CHR 0x27] @ v @ [CHR 0x27]) \<notin> set out)"
proof (cases "optionsValid env (options d)")
  case True
  show ?thesis
    by (simp add: processOptions_valid [OF True] Let_def registerPaths_simps printError_simps
        compatApplied_simps enableColors_simps applyCompatVcs_simps
        missingDirWarnings_no_compat_error [simplified])
next
  case False
  from processOptions_invalid [OF False] obtain d' where
    p: "processOptions env d = (False, d')" and
    v: "validateOptions env (snd (enableColors env d)) = Inl d'" by blast
  from validateOptions_Inl_vcs [OF v] assms obtain m where
    m: "stderrText d' = stderrText d @ [(Some errorColor, ''error: ''), (None, m), (None, [CHR 0x0A])]"
    "\<forall>v. m \<noteq> ''invalid value for compat option: '' @ [CHR 0x27] @ v @ [CHR 0x27]"
    by (auto simp: enableColors_simps)
  have "(None, ''invalid value for compat option: '' @ [CHR 0x27] @ v @ [CHR 0x27])
          \<notin> set [(Some errorColor, ''error: ''), (None, m), (None, [CHR 0x0A])]" for v
    using m(2) by auto
  with m(1) p show ?thesis by (intro exI [of _ "[(Some errorColor, ''error: ''), (None, m), (None, [CHR 0x0A])]"]) simp
qed

text \<open>
  Claim C7. The only value accepted for \<open>--compat\<close> is \<open>vcs\<close>: for any other value
  \<open>v\<close>, \<open>processOptions\<close> prints the error \<open>invalid value for compat option: 'v'\<close> and
  returns false. The value \<open>vcs\<close> is accepted: \<open>processOptions\<close> sets
  \<open>allow-hierarchical-const\<close>, \<open>allow-use-before-declare\<close> and \<open>relax-enum-conversions\<close>
  to true where they were not set, and leaves them as set otherwise; it prints no error
  about the compat option; and it returns true exactly when the checks that follow pass:
  the timing value, \<open>single-unit\<close> with \<open>libraries-inherit-macros\<close>, the time scale, no
  failed load, and some input file.
\<close>

theorem compat_accepts_only_vcs:
  "(compat (options d) = Some v \<and> v \<noteq> ''vcs'' \<longrightarrow>
      (\<exists>d'. processOptions env d = (False, d') \<and>
            stderrText d' = stderrText d @
              [(Some errorColor, ''error: ''),
               (None, ''invalid value for compat option: '' @ [CHR 0x27] @ v @ [CHR 0x27]),
               (None, [CHR 0x0A])] \<and>
            stdoutText d' = stdoutText d \<and> options d' = options d)) \<and>
   (compat (options d) = Some ''vcs'' \<longrightarrow>
      allowHierarchicalConst (options (snd (processOptions env d))) =
        (case allowHierarchicalConst (options d) of None \<Rightarrow> Some True | Some b \<Rightarrow> Some b) \<and>
      allowUseBeforeDeclare (options (snd (processOptions env d))) =
        (case allowUseBeforeDeclare (options d) of None \<Rightarrow> Some True | Some b \<Rightarrow> Some b) \<and>
      relaxEnumConversions (options (snd (processOptions env d))) =
        (case relaxEnumConversions (options d) of None \<Rightarrow> Some True | Some b \<Rightarrow> Some b) \<and>
      (\<exists>out. stderrText (snd (processOptions env d)) = stderrText d @ out \<and>
         (\<forall>w. (None, ''invalid value for compat option: '' @ [CHR 0x27] @ w @ [CHR 0x27])
                \<notin> set out)) \<and>
      (fst (processOptions env d) \<longleftrightarrow>
         (case minTypMax (options d) of
            Some m \<Rightarrow> m = ''min'' \<or> m = ''typ'' \<or> m = ''max'' | None \<Rightarrow> True) \<and>
         (librariesInheritMacros (options d) = Some True \<longrightarrow> singleUnit (options d) = Some True) \<and>
         (case timeScale (options d) of
            Some ts \<Rightarrow> TimeScale_fromString env ts \<noteq> None | None \<Rightarrow> True) \<and>
         \<not> anyFailedLoads d \<and>
         hasFiles env (loaderWithLibraries (options d) (sourceLoader d))))"
proof (intro conjI impI)
  assume a: "compat (options d) = Some v \<and> v \<noteq> ''vcs''"
  then have "validateOptions env (snd (enableColors env d)) =
      Inl (printError (''invalid value for compat option: '' @ quoted v) (snd (enableColors env d)))"
    by (simp add: validateOptions_def validateCompat_def enableColors_simps)
  then show "\<exists>d'. processOptions env d = (False, d') \<and>
            stderrText d' = stderrText d @
              [(Some errorColor, ''error: ''),
               (None, ''invalid value for compat option: '' @ [CHR 0x27] @ v @ [CHR 0x27]),
               (None, [CHR 0x0A])] \<and>
            stdoutText d' = stdoutText d \<and> options d' = options d"
    by (simp add: processOptions_def split_beta printError_simps enableColors_simps quoted_def)
next
  assume "compat (options d) = Some ''vcs''"
  then show "allowHierarchicalConst (options (snd (processOptions env d))) =
        (case allowHierarchicalConst (options d) of None \<Rightarrow> Some True | Some b \<Rightarrow> Some b)"
    and "allowUseBeforeDeclare (options (snd (processOptions env d))) =
        (case allowUseBeforeDeclare (options d) of None \<Rightarrow> Some True | Some b \<Rightarrow> Some b)"
    and "relaxEnumConversions (options (snd (processOptions env d))) =
        (case relaxEnumConversions (options d) of None \<Rightarrow> Some True | Some b \<Rightarrow> Some b)"
    by (simp_all add: processOptions_options compatApplied_simps applyCompatVcs_defaults)
next
  assume "compat (options d) = Some ''vcs''"
  then show "\<exists>out. stderrText (snd (processOptions env d)) = stderrText d @ out \<and>
         (\<forall>w. (None, ''invalid value for compat option: '' @ [CHR 0x27] @ w @ [CHR 0x27])
                \<notin> set out)"
    by (rule processOptions_vcs_stderr)
next
  assume "compat (options d) = Some ''vcs''"
  then show "fst (processOptions env d) \<longleftrightarrow>
         (case minTypMax (options d) of
            Some m \<Rightarrow> m = ''min'' \<or> m = ''typ'' \<or> m = ''max'' | None \<Rightarrow> True) \<and>
         (librariesInheritMacros (options d) = Some True \<longrightarrow> singleUnit (options d) = Some True) \<and>
         (case timeScale (options d) of
            Some ts \<Rightarrow> TimeScale_fromString env ts \<noteq> None | None \<Rightarrow> True) \<and>
         \<not> anyFailedLoads d \<and>
         hasFiles env (loaderWithLibraries (options d) (sourceLoader d))"
    by (simp add: processOptions_fst optionsValid_def)
qed

text \<open>
  Claim C3, amended. When \<open>--libraries-inherit-macros\<close> is true, \<open>--single-unit\<close> is not
  set to true, and the values of \<open>--compat\<close> and \<open>--timing\<close> are valid, \<open>processOptions\<close>
  prints exactly the error \<open>--single-unit must be set when --libraries-inherit-macros is
  used\<close> and returns false, with the source loader and the source manager untouched.
\<close>

theorem single_unit_required:
  assumes "librariesInheritMacros (options d) = Some True"
    and "singleUnit (options d) \<noteq> Some True"
    and "compat (options d) = None \<or> compat (options d) = Some ''vcs''"
    and "minTypMax (options d) \<in> {None, Some ''min'', Some ''typ'', Some ''max''}"
  shows "\<exists>d'. processOptions env d = (False, d') \<and>
           stderrText d' = stderrText d @
             [(Some errorColor, ''error: ''),
              (None, ''--single-unit must be set when --libraries-inherit-macros is used''),
              (None, [CHR 0x0A])] \<and>
           stdoutText d' = stdoutText d \<and>
           sourceLoader d' = sourceLoader d \<and> sourceManager d' = sourceManager d"
proof -
  let ?d1 = "compatApplied (snd (enableColors env d))"
  have su: "\<not> (case singleUnit (options d) of Some b \<Rightarrow> b | None \<Rightarrow> False)"
    using assms(2) by (cases "singleUnit (options d)") auto
  have c: "validateCompat (snd (enableColors env d)) = Inr ?d1"
    using assms(3) by (auto simp: validateCompat_def compatApplied_def enableColors_simps)
  have t: "validateTiming ?d1 = Inr ?d1"
    using assms(4)
    by (auto simp: validateTiming_def compatApplied_simps enableColors_simps applyCompatVcs_simps)
  have s: "validateSingleUnit ?d1 =
      Inl (printError ''--single-unit must be set when --libraries-inherit-macros is used'' ?d1)"
    using assms(1) su
    by (auto simp: validateSingleUnit_def compatApplied_simps enableColors_simps applyCompatVcs_simps)
  have "validateOptions env (snd (enableColors env d)) =
      Inl (printError ''--single-unit must be set when --libraries-inherit-macros is used'' ?d1)"
    by (simp add: validateOptions_def c t s)
  then show ?thesis
    by (simp add: processOptions_def split_beta printError_simps compatApplied_simps enableColors_simps)
qed

lemma missingDirWarnings_no_error:
  "(None, ''no input files'') \<notin> set (missingDirWarnings env dirs)"
  by (induction dirs) (simp_all add: missingDirWarnings_def)

lemma validateOptions_Inl:
  assumes "validateOptions env d1 = Inl d'"
  shows "\<exists>m. stderrText d' = stderrText d1 @ [(Some errorColor, ''error: ''), (None, m), (None, [CHR 0x0A])]
            \<and> m \<noteq> ''no input files''"
    and "sourceLoader d' = sourceLoader d1"
  using assms
  by (auto simp: validateOptions_def validateCompat_def validateTiming_def
        validateSingleUnit_def validateTimeScale_def printError_simps quoted_def
        split: option.splits if_splits sum.splits)

text \<open>
  Claim C10, amended. When the option values are valid, no earlier load has failed, and
  \<open>hasFiles\<close> is false for the loader once the \<open>-v\<close> files and the search paths are
  registered, \<open>processOptions\<close> prints the warnings for missing include directories, then
  the error \<open>no input files\<close>, and returns false. When an earlier load has failed, it
  returns false and does not print \<open>no input files\<close>.
\<close>

theorem no_input_files:
  "(optionsValid env (options d) \<and> \<not> anyFailedLoads d \<and>
    \<not> hasFiles env (loaderWithLibraries (options d) (sourceLoader d)) \<longrightarrow>
      (\<exists>d'. processOptions env d = (False, d') \<and>
            stderrText d' = stderrText d
              @ missingDirWarnings env (includeDirs (options d))
              @ missingDirWarnings env (includeSystemDirs (options d))
              @ [(Some errorColor, ''error: ''), (None, ''no input files''), (None, [CHR 0x0A])])) \<and>
   (anyFailedLoads d \<longrightarrow>
      (\<exists>d' out. processOptions env d = (False, d') \<and> stderrText d' = stderrText d @ out \<and>
                (None, ''no input files'') \<notin> set out))"
proof (intro conjI impI)
  assume a: "optionsValid env (options d) \<and> \<not> anyFailedLoads d \<and>
    \<not> hasFiles env (loaderWithLibraries (options d) (sourceLoader d))"
  then have v: "optionsValid env (options d)" by simp
  show "\<exists>d'. processOptions env d = (False, d') \<and>
            stderrText d' = stderrText d
              @ missingDirWarnings env (includeDirs (options d))
              @ missingDirWarnings env (includeSystemDirs (options d))
              @ [(Some errorColor, ''error: ''), (None, ''no input files''), (None, [CHR 0x0A])]"
    using a
    by (simp add: processOptions_valid [OF v] Let_def printError_simps registerPaths_simps
        compatApplied_simps enableColors_simps applyCompatVcs_simps)
next
  assume f: "anyFailedLoads d"
  show "\<exists>d' out. processOptions env d = (False, d') \<and> stderrText d' = stderrText d @ out \<and>
                (None, ''no input files'') \<notin> set out"
  proof (cases "optionsValid env (options d)")
    case True
    show ?thesis
      using f
      by (simp add: processOptions_valid [OF True] Let_def registerPaths_simps
          compatApplied_simps enableColors_simps applyCompatVcs_simps missingDirWarnings_no_error)
  next
    case False
    from processOptions_invalid [OF False] obtain d' where
      p: "processOptions env d = (False, d')" and
      v: "validateOptions env (snd (enableColors env d)) = Inl d'" by blast
    from validateOptions_Inl(1) [OF v] obtain m where
      "stderrText d' = stderrText d @ [(Some errorColor, ''error: ''), (None, m), (None, [CHR 0x0A])]"
      "m \<noteq> ''no input files''"
      by (auto simp: enableColors_simps)
    then show ?thesis using p by simp
  qed
qed











section \<open>Properties of \<open>Driver::processCommandFile\<close>\<close>

lemma printCmdLineErrors_currentPath:
  "currentPath (printCmdLineErrors d) = currentPath d"
proof -
  have "currentPath (foldl (\<lambda>d' err. OS_printE (None, err @ [CHR 0x0A]) d') d es) = currentPath d"
    for es
    by (induction es arbitrary: d) (simp_all add: OS_printE_def)
  then show ?thesis by (simp add: printCmdLineErrors_def)
qed

lemma fs_set_current_path_simps:
  "currentPath (fs_set_current_path env p d) = (if directoryEnterable env p then p else currentPath d)"
  by (simp add: fs_set_current_path_def)

lemma processCommandFile_not_found:
  "commandFileText env d fileName = None \<Longrightarrow>
   processCommandFile env fileName makeRelative d =
     Inr (False, printError (''unable to find or open file: '' @ [CHR 0x27] @ fileName @ [CHR 0x27]) d)"
  by (auto simp: processCommandFile_def OS_readFile_def commandFileText_def split: option.splits)

lemma processCommandFile_relative:
  "\<exists>ok d'. processCommandFile env fileName True d = Inr (ok, d') \<and>
     (commandFileText env d fileName = None \<longrightarrow> currentPath d' = currentPath d) \<and>
     (currentPathReadable env (currentPath d) \<and> directoryEnterable env (currentPath d) \<longrightarrow>
        currentPath d' = currentPath d)"
  by (auto simp: processCommandFile_def OS_readFile_def Let_def printCmdLineErrors_currentPath
      printError_def OS_printE_def commandFileText_def fs_current_path_def
      fs_set_current_path_simps split: option.splits prod.splits)

lemma processCommandFile_plain:
  "\<exists>ok d'. processCommandFile env fileName False d = Inr (ok, d') \<and>
     currentPath d' =
       (case commandFileText env d fileName of
          None \<Rightarrow> currentPath d
        | Some argStr \<Rightarrow> currentPath (snd (cmdLine_parse env argStr commandFileParseOptions d)))"
  by (auto simp: processCommandFile_def OS_readFile_def Let_def printCmdLineErrors_currentPath
      printError_def OS_printE_def commandFileText_def commandFileParseOptions_def
      split: option.splits prod.splits)

text \<open>
  Claim C8, amended. For a \<open>-F\<close> file (\<open>makeRelative\<close> true), \<open>processCommandFile\<close> returns with
  the working directory it was called with, whatever the parse of the file's text does
  and whether it succeeds or fails, provided that \<open>fs::current_path\<close> can report that
  directory before the parse and can enter it again after the parse; when the file is not
  found the working directory is never touched. For a \<open>-f\<close> file the function makes no
  change of its own: the working directory is the one that the parse of the file's text
  leaves, and so unchanged when parsing does not change it.
\<close>

theorem processCommandFile_working_directory:
  "(\<exists>ok d'. processCommandFile env fileName True d = Inr (ok, d') \<and>
      (commandFileText env d fileName = None \<longrightarrow> currentPath d' = currentPath d) \<and>
      (currentPathReadable env (currentPath d) \<and> directoryEnterable env (currentPath d) \<longrightarrow>
         currentPath d' = currentPath d)) \<and>
   (\<exists>ok d'. processCommandFile env fileName False d = Inr (ok, d') \<and>
      currentPath d' =
        (case commandFileText env d fileName of
           None \<Rightarrow> currentPath d
         | Some argStr \<Rightarrow> currentPath (snd (cmdLine_parse env argStr commandFileParseOptions d))) \<and>
      ((\<forall>argStr po x. currentPath (snd (cmdLine_parse env argStr po x)) = currentPath x) \<longrightarrow>
         currentPath d' = currentPath d))"
proof -
  from processCommandFile_plain [of env fileName d] obtain ok d' where
    r: "processCommandFile env fileName False d = Inr (ok, d')" and
    c: "currentPath d' =
        (case commandFileText env d fileName of
           None \<Rightarrow> currentPath d
         | Some argStr \<Rightarrow> currentPath (snd (cmdLine_parse env argStr commandFileParseOptions d)))"
    by blast
  have "currentPath d' = currentPath d"
    if "\<forall>argStr po x. currentPath (snd (cmdLine_parse env argStr po x)) = currentPath x"
    using that c by (simp split: option.splits)
  with r c processCommandFile_relative [of env fileName d] show ?thesis by simp
qed
section \<open>Properties of \<open>Driver::runPreprocessor\<close>\<close>

subsection \<open>The parts of the loop\<close>

lemma nextToken_Nil: "pending st = [] \<Longrightarrow> nextToken st = (eofToken, st)"
  by (simp add: nextToken_def)

lemma nextToken_Cons:
  "pending st = (t, ds) # rest \<Longrightarrow>
     nextToken st = (t, st\<lparr>pending := rest, diagnostics := diagnostics st @ ds\<rparr>)"
  by (simp add: nextToken_def)

text \<open>The \<open>do ... while\<close> prints the integer base and its digits, and returns the token that ends them.\<close>

lemma vectorDigits_result:
  assumes "\<not> isPossibleVectorDigit facts EndOfFile"
  shows "vectorDigits facts token st =
     (case digitRun facts (pending st) of (digits, stop, diags, rest) \<Rightarrow>
        Some (stop, st\<lparr>pending := rest, diagnostics := diagnostics st @ diags,
                       output' := (output' st)\<lparr>printed := printed (output' st) @ token # digits\<rparr>\<rparr>))"
proof (induction "pending st" arbitrary: token st)
  case Nil
  then have p: "pending st = []" by simp
  show ?case
    using assms
    by (subst vectorDigits.simps)
       (simp add: p nextToken_def printToken_def eofToken_def)
next
  case (Cons a ps)
  obtain t ds where a: "a = (t, ds)" by (cases a)
  have p: "pending st = (t, ds) # ps" using Cons.hyps(2) a by simp
  show ?case
  proof (cases "isPossibleVectorDigit facts (kind t)")
    case False
    then show ?thesis
      by (subst vectorDigits.simps) (simp add: p nextToken_def printToken_def)
  next
    case True
    let ?st2 = "st\<lparr>output' := printToken token (output' st), pending := ps,
                    diagnostics := diagnostics st @ ds\<rparr>"
    have step: "vectorDigits facts token st = vectorDigits facts t ?st2"
      using True by (subst vectorDigits.simps) (simp add: p nextToken_def)
    have "ps = pending ?st2" by simp
    from Cons.hyps(1) [OF this, of t] show ?thesis
      using True by (simp add: step p printToken_def split: prod.splits)
  qed
qed

lemma length_chars: "length chars = 62"
  by (simp add: chars_def)

lemma generateRandomAlphanumericString_chars:
  "length (fst (generateRandomAlphanumericString facts gen n)) = n \<and>
   set (fst (generateRandomAlphanumericString facts gen n)) \<subseteq> set chars"
proof (induction n arbitrary: gen)
  case 0
  show ?case by simp
next
  case (Suc n)
  obtain i gen1 where d: "getUniformIntDist facts gen 0 (length chars - 1) = (i, gen1)"
    by (cases "getUniformIntDist facts gen 0 (length chars - 1)")
  then have "i < length chars"
    by (auto simp: getUniformIntDist_def length_chars split: prod.splits)
  then have "chars ! i \<in> set chars" by simp
  with Suc [of gen1] show ?case
    by (simp add: d [simplified] split_beta)
qed

lemma obfuscate_result:
  assumes "rng st \<noteq> None" and "alphanumericMap (obfuscationMap st)"
  shows "\<exists>s st'. obfuscate facts token st = Some (withRawText token s, st') \<and>
           obfuscationMap st' (valueText facts token) = Some s \<and>
           obfuscationMap st \<subseteq>\<^sub>m obfuscationMap st' \<and>
           alphanumericMap (obfuscationMap st') \<and> rng st' \<noteq> None \<and>
           pending st' = pending st \<and> diagnostics st' = diagnostics st \<and>
           output' st' = output' st"
proof (cases "obfuscationMap st (valueText facts token)")
  case (Some s)
  then show ?thesis using assms by (simp add: obfuscate_def)
next
  case None
  from assms(1) obtain gen where g: "rng st = Some gen" by auto
  obtain newName gen' where n: "generateRandomAlphanumericString facts gen 16 = (newName, gen')"
    by (cases "generateRandomAlphanumericString facts gen 16")
  have a: "alphanumeric16 newName"
    using generateRandomAlphanumericString_chars [of facts gen 16] n
    by (simp add: alphanumeric16_def)
  have le: "obfuscationMap st \<subseteq>\<^sub>m (obfuscationMap st)(valueText facts token \<mapsto> newName)"
    using None by (auto simp: map_le_def)
  have wf: "alphanumericMap ((obfuscationMap st)(valueText facts token \<mapsto> newName))"
    using assms(2) a by (simp add: alphanumericMap_def)
  show ?thesis
    using None g n le wf by (simp add: obfuscate_def)
qed

lemma emittedAs_mono:
  "emittedAs facts obf m tc p \<Longrightarrow> m \<subseteq>\<^sub>m m' \<Longrightarrow> emittedAs facts obf m' tc p"
  by (auto simp: emittedAs_def replacedBy_def map_le_def dom_def
      split: prod.splits option.splits if_splits Place.splits)

lemma emittedAs_other_base:
  "emittedAs facts obf m (t, OutsideDigits) p \<Longrightarrow> emittedAs facts obf m (t, DigitOfOtherBase) p"
  by (auto simp: emittedAs_def split: if_splits)

text \<open>The names that the generator gives one after the other.\<close>

lemma generatedNames_Suc:
  "generatedNames facts gen (Suc n) =
     generatedNames facts gen n @
       [fst (generateRandomAlphanumericString facts (snd (namesFrom facts gen n)) 16)]"
  by (simp add: generatedNames_def split_beta)

lemma namesFrom_Suc_generator:
  "snd (namesFrom facts gen (Suc n)) =
     snd (generateRandomAlphanumericString facts (snd (namesFrom facts gen n)) 16)"
  by (simp add: split_beta)

lemma length_generatedNames: "length (generatedNames facts gen n) = n"
  by (induction n) (simp_all add: generatedNames_Suc, simp add: generatedNames_def)

lemma generatedNames_take:
  "n \<le> limit \<Longrightarrow> take n (generatedNames facts gen limit) = generatedNames facts gen n"
proof (induction limit)
  case 0
  then show ?case by (simp add: generatedNames_def)
next
  case (Suc limit)
  show ?case
  proof (cases "n = Suc limit")
    case True
    then show ?thesis using length_generatedNames [of facts gen "Suc limit"] by simp
  next
    case False
    with Suc.prems have le: "n \<le> limit" by simp
    show ?thesis
      using Suc.IH [OF le] le by (simp add: generatedNames_Suc length_generatedNames)
  qed
qed


lemma generatedNames_distinct:
  assumes "distinct (generatedNames facts gen limit)" and "n \<le> limit"
  shows "distinct (generatedNames facts gen n)"
proof -
  from assms(1) have "distinct (take n (generatedNames facts gen limit))" by (rule distinct_take)
  then show ?thesis by (simp add: generatedNames_take [OF assms(2)])
qed

lemma inj_on_map_upd:
  assumes "inj_on m (dom m)" and "v \<notin> ran m"
  shows "inj_on (m(k \<mapsto> v)) (dom (m(k \<mapsto> v)))"
  using assms by (auto simp: inj_on_def ran_def dom_def)

lemma namesSoFar_fewer:
  assumes "namesSoFar facts gen limit k st" and "k' \<le> k"
  shows "namesSoFar facts gen limit k' st"
proof -
  from assms(1) obtain n where "n + k \<le> limit" "rng st = Some (snd (namesFrom facts gen n))"
    "ran (obfuscationMap st) \<subseteq> set (generatedNames facts gen n)"
    "distinct (generatedNames facts gen limit) \<longrightarrow>
       inj_on (obfuscationMap st) (dom (obfuscationMap st))"
    unfolding namesSoFar_def by blast
  with assms(2) show ?thesis
    unfolding namesSoFar_def by (intro exI [of _ n]) simp
qed

lemma namesSoFar_cong:
  "rng st' = rng st \<Longrightarrow> obfuscationMap st' = obfuscationMap st \<Longrightarrow>
     namesSoFar facts gen limit k st' = namesSoFar facts gen limit k st"
  by (simp add: namesSoFar_def)

lemma obfuscate_names:
  assumes o: "obfuscate facts token st = Some (p, st')"
    and ns: "namesSoFar facts gen limit (Suc k) st"
  shows "namesSoFar facts gen limit k st'"
proof -
  from ns obtain n where n: "n + Suc k \<le> limit"
    and r: "rng st = Some (snd (namesFrom facts gen n))"
    and sub: "ran (obfuscationMap st) \<subseteq> set (generatedNames facts gen n)"
    and inj: "distinct (generatedNames facts gen limit) \<longrightarrow>
                inj_on (obfuscationMap st) (dom (obfuscationMap st))"
    by (auto simp: namesSoFar_def)
  show ?thesis
  proof (cases "obfuscationMap st (valueText facts token)")
    case (Some s)
    with o have "st' = st" by (simp add: obfuscate_def)
    with ns show ?thesis by (simp add: namesSoFar_fewer)
  next
    case None
    obtain newName gen' where
      g: "generateRandomAlphanumericString facts (snd (namesFrom facts gen n)) 16 = (newName, gen')"
      by (cases "generateRandomAlphanumericString facts (snd (namesFrom facts gen n)) 16")
    from o None r g have st':
      "st' = st\<lparr>rng := Some gen',
                obfuscationMap := (obfuscationMap st)(valueText facts token \<mapsto> newName)\<rparr>"
      by (simp add: obfuscate_def)
    have gn: "generatedNames facts gen (Suc n) = generatedNames facts gen n @ [newName]"
      by (simp add: generatedNames_Suc g)
    have sn: "snd (namesFrom facts gen (Suc n)) = gen'"
      by (simp only: namesFrom_Suc_generator g snd_conv)
    have le: "Suc n + k \<le> limit" using n by simp
    have "ran ((obfuscationMap st)(valueText facts token \<mapsto> newName))
        \<subseteq> insert newName (ran (obfuscationMap st))"
      by (auto simp: ran_def)
    with sub have sub': "ran ((obfuscationMap st)(valueText facts token \<mapsto> newName))
        \<subseteq> set (generatedNames facts gen (Suc n))"
      unfolding gn by auto
    have inj': "inj_on ((obfuscationMap st)(valueText facts token \<mapsto> newName))
        (dom ((obfuscationMap st)(valueText facts token \<mapsto> newName)))"
      if dist: "distinct (generatedNames facts gen limit)"
    proof -
      have "distinct (generatedNames facts gen (Suc n))"
        using generatedNames_distinct [OF dist] le by simp
      then have "newName \<notin> set (generatedNames facts gen n)"
        unfolding gn by simp
      with sub have "newName \<notin> ran (obfuscationMap st)" by auto
      with inj dist show ?thesis by (intro inj_on_map_upd) simp_all
    qed
    have "Suc n + k \<le> limit \<and> rng st' = Some (snd (namesFrom facts gen (Suc n))) \<and>
        ran (obfuscationMap st') \<subseteq> set (generatedNames facts gen (Suc n)) \<and>
        (distinct (generatedNames facts gen limit) \<longrightarrow>
           inj_on (obfuscationMap st') (dom (obfuscationMap st')))"
      unfolding sn using le sub' inj' by (simp add: st')
    then show ?thesis
      unfolding namesSoFar_def by (rule exI [of _ "Suc n"])
  qed
qed

lemma obfuscation_step:
  assumes "obf \<longrightarrow> rng st \<noteq> None" and "alphanumericMap (obfuscationMap st)"
  shows "\<exists>p st'. (if obf \<and> kind token = Identifier then obfuscate facts token st
                  else Some (token, st)) = Some (p, st') \<and>
           kind p = kind token \<and>
           emittedAs facts obf (obfuscationMap st') (token, OutsideDigits) p \<and>
           obfuscationMap st \<subseteq>\<^sub>m obfuscationMap st' \<and>
           alphanumericMap (obfuscationMap st') \<and> (obf \<longrightarrow> rng st' \<noteq> None) \<and>
           pending st' = pending st \<and> diagnostics st' = diagnostics st \<and>
           output' st' = output' st \<and>
           (\<forall>gen limit k.
              namesSoFar facts gen limit ((if kind token = Identifier then 1 else 0) + k) st \<longrightarrow>
              namesSoFar facts gen limit k st')"
proof (cases "obf \<and> kind token = Identifier")
  case True
  with assms have "rng st \<noteq> None" by simp
  from obfuscate_result [OF this assms(2), where facts = facts and token = token] obtain s st' where
    r: "obfuscate facts token st = Some (withRawText token s, st')"
    "obfuscationMap st' (valueText facts token) = Some s"
    "obfuscationMap st \<subseteq>\<^sub>m obfuscationMap st'"
    "alphanumericMap (obfuscationMap st')" "rng st' \<noteq> None"
    "pending st' = pending st" "diagnostics st' = diagnostics st" "output' st' = output' st"
    by blast
  have "namesSoFar facts gen limit k st'" if "namesSoFar facts gen limit (Suc k) st" for gen limit k
    by (rule obfuscate_names [OF r(1) that])
  with r show ?thesis
    using True by (simp add: emittedAs_def replacedBy_def withRawText_def)
next
  case False
  have "namesSoFar facts gen limit k st"
    if "namesSoFar facts gen limit ((if kind token = Identifier then 1 else 0) + k) st"
    for gen limit k
    using that by (rule namesSoFar_fewer) simp
  with False show ?thesis using assms by (auto simp: emittedAs_def)
qed

lemma digitRun_handedOut:
  assumes "\<not> isPossibleVectorDigit facts EndOfFile"
    and "digitRun facts ps = (digits, stop, diags, rest)"
  shows "handedOut ps = digits @ (if kind stop = EndOfFile then [stop] else stop # handedOut rest)"
    and "bufferedDiagnostics ps =
           diags @ (if kind stop = EndOfFile then [] else bufferedDiagnostics rest)"
    and "\<not> isPossibleVectorDigit facts (kind stop)"
    and "\<forall>dt\<in>set digits. isPossibleVectorDigit facts (kind dt)"
    and "length rest \<le> length ps"
  using assms
  by (induction ps arbitrary: digits stop diags rest)
     (auto simp: eofToken_def split: if_splits prod.splits)

lemma places_digits:
  "\<forall>dt\<in>set digits. isPossibleVectorDigit facts (kind dt) \<Longrightarrow>
     places facts True separated (digits @ ts) =
       replicate (length digits) (if separated then DigitOfSeparatedBase else DigitOfOtherBase)
         @ places facts True separated ts"
  by (induction digits) (simp_all add: Let_def)

lemma emittedAs_digits:
  "c \<noteq> OutsideDigits \<Longrightarrow>
     list_all2 (emittedAs facts obf m) (zip digits (replicate (length digits) c)) digits"
  by (induction digits) (simp_all add: emittedAs_def split: Place.splits)

lemma tokenLoop_unfold:
  "tokenLoop facts obf st =
     (case nextToken st of (token, st1) \<Rightarrow>
        if kind token = IntegerBase
        then Option.bind (vectorDigits facts token st1) (\<lambda>(token, st2). afterFetch facts obf token st2)
        else afterFetch facts obf token st1)"
  by (subst tokenLoop.simps) (simp add: afterFetch_def [abs_def] split: prod.splits)

text \<open>
  One pass through the second half of the loop body, given what the loop leaves from
  every state with fewer pending tokens.
\<close>

lemma afterFetch_step:
  assumes ih: "\<And>st4. length (pending st4) < n \<Longrightarrow> (obf \<longrightarrow> rng st4 \<noteq> None) \<Longrightarrow>
              alphanumericMap (obfuscationMap st4) \<Longrightarrow>
              \<exists>st'. tokenLoop facts obf st4 = Some st' \<and> loopPostcondition facts obf st4 st'"
    and more: "kind token \<noteq> EndOfFile \<longrightarrow> length (pending st2) < n"
    and gen: "obf \<longrightarrow> rng st2 \<noteq> None"
    and wf: "alphanumericMap (obfuscationMap st2)"
  shows "\<exists>st' p outs. afterFetch facts obf token st2 = Some st' \<and>
           obfuscationMap st2 \<subseteq>\<^sub>m obfuscationMap st' \<and>
           alphanumericMap (obfuscationMap st') \<and>
           diagnostics st' = diagnostics st2 @
             (if kind token = EndOfFile then [] else bufferedDiagnostics (pending st2)) \<and>
           printed (output' st') = printed (output' st2) @ p # outs \<and>
           emittedAs facts obf (obfuscationMap st') (token, OutsideDigits) p \<and>
           length outs = (if kind token = EndOfFile then 0 else length (handedOut (pending st2))) \<and>
           (kind token \<noteq> EndOfFile \<longrightarrow>
              (\<forall>afterBase.
                 list_all2 (emittedAs facts obf (obfuscationMap st'))
                   (zip (handedOut (pending st2)) (places facts afterBase False (handedOut (pending st2))))
                   outs)) \<and>
           (\<forall>g limit. namesSoFar facts g limit
                ((if kind token = Identifier then 1 else 0) +
                 (if kind token = EndOfFile then 0 else identifierCount (handedOut (pending st2)))) st2 \<longrightarrow>
              namesSoFar facts g limit 0 st')"
proof -
  from obfuscation_step [OF gen wf, where facts = facts and token = token] obtain p st3 where
    o: "(if obf \<and> kind token = Identifier then obfuscate facts token st2
         else Some (token, st2)) = Some (p, st3)"
    and k: "kind p = kind token"
    and e: "emittedAs facts obf (obfuscationMap st3) (token, OutsideDigits) p"
    and le: "obfuscationMap st2 \<subseteq>\<^sub>m obfuscationMap st3"
    and wf3: "alphanumericMap (obfuscationMap st3)"
    and gen3: "obf \<longrightarrow> rng st3 \<noteq> None"
    and same: "pending st3 = pending st2" "diagnostics st3 = diagnostics st2"
      "output' st3 = output' st2"
    and names: "\<forall>g limit k.
        namesSoFar facts g limit ((if kind token = Identifier then 1 else 0) + k) st2 \<longrightarrow>
        namesSoFar facts g limit k st3"
    by blast
  let ?st4 = "st3\<lparr>output' := printToken p (output' st3)\<rparr>"
  have af: "afterFetch facts obf token st2 =
      (if kind token = EndOfFile then Some ?st4 else tokenLoop facts obf ?st4)"
    unfolding afterFetch_def o by (simp add: k)
  have n4: "namesSoFar facts g limit k ?st4 = namesSoFar facts g limit k st3" for g limit k
    by (rule namesSoFar_cong) simp_all
  show ?thesis
  proof (cases "kind token = EndOfFile")
    case True
    have "namesSoFar facts g limit 0 ?st4"
      if "namesSoFar facts g limit ((if kind token = Identifier then 1 else 0) + 0) st2" for g limit
    proof -
      from names that have "namesSoFar facts g limit 0 st3" by blast
      then show ?thesis by (simp only: n4)
    qed
    then show ?thesis
      using True af e le wf3 same by (simp add: printToken_def)
  next
    case False
    with more have "length (pending ?st4) < n" by (simp add: same)
    from ih [OF this] gen3 wf3 obtain st' where
      run: "tokenLoop facts obf ?st4 = Some st'" and post: "loopPostcondition facts obf ?st4 st'"
      by auto
    from post obtain outs where
      le': "obfuscationMap st3 \<subseteq>\<^sub>m obfuscationMap st'"
      and wf': "alphanumericMap (obfuscationMap st')"
      and dg: "diagnostics st' = diagnostics st3 @ bufferedDiagnostics (pending st3)"
      and pr: "printed (output' st') = (printed (output' st3) @ [p]) @ outs"
      and len: "length outs = length (handedOut (pending st3))"
      and sep: "\<forall>afterBase.
           list_all2 (emittedAs facts obf (obfuscationMap st'))
             (zip (handedOut (pending st3)) (places facts afterBase False (handedOut (pending st3))))
             outs"
      and nm: "\<forall>g limit. namesSoFar facts g limit (identifierCount (handedOut (pending st3))) ?st4 \<longrightarrow>
           namesSoFar facts g limit 0 st'"
      by (auto simp: loopPostcondition_def printToken_def)
    have e': "emittedAs facts obf (obfuscationMap st') (token, OutsideDigits) p"
      by (rule emittedAs_mono [OF e le'])
    have le2: "obfuscationMap st2 \<subseteq>\<^sub>m obfuscationMap st'"
      by (rule map_le_trans [OF le le'])
    have nm': "namesSoFar facts g limit 0 st'"
      if "namesSoFar facts g limit
            ((if kind token = Identifier then 1 else 0) + identifierCount (handedOut (pending st2))) st2"
      for g limit
    proof -
      from names that have "namesSoFar facts g limit (identifierCount (handedOut (pending st2))) st3"
        by blast
      then have "namesSoFar facts g limit (identifierCount (handedOut (pending st3))) ?st4"
        by (simp only: n4 same(1))
      with nm show ?thesis by blast
    qed
    show ?thesis
      using False af run le2 wf' dg pr len sep e' nm' by (simp add: same)
  qed
qed

text \<open>
  The loop returns when end-of-file is not a possible vector digit, and leaves its
  postcondition. The induction is on the number of pending tokens.
\<close>

lemma tokenLoop_run:
  assumes eof: "\<not> isPossibleVectorDigit facts EndOfFile"
  shows "(obf \<longrightarrow> rng st \<noteq> None) \<Longrightarrow> alphanumericMap (obfuscationMap st) \<Longrightarrow>
     \<exists>st'. tokenLoop facts obf st = Some st' \<and> loopPostcondition facts obf st st'"
proof (induction "length (pending st)" arbitrary: st rule: less_induct)
  case less
  note ih = less.hyps
  note gen = less.prems(1)
  note wf = less.prems(2)
  show ?case
  proof (cases "pending st")
    case Nil
    have tl: "tokenLoop facts obf st = afterFetch facts obf eofToken st"
      by (simp add: tokenLoop_unfold nextToken_Nil [OF Nil] eofToken_def)
    have "kind eofToken \<noteq> EndOfFile \<longrightarrow> length (pending st) < length (pending st)"
      by (simp add: eofToken_def)
    from afterFetch_step [OF ih this gen wf]
    obtain st' q outs where
      r: "afterFetch facts obf eofToken st = Some st'"
      "obfuscationMap st \<subseteq>\<^sub>m obfuscationMap st'"
      "alphanumericMap (obfuscationMap st')"
      and dg: "diagnostics st' = diagnostics st @
             (if kind eofToken = EndOfFile then [] else bufferedDiagnostics (pending st))"
      and pr: "printed (output' st') = printed (output' st) @ q # outs"
      and em: "emittedAs facts obf (obfuscationMap st') (eofToken, OutsideDigits) q"
      and len: "length outs = (if kind eofToken = EndOfFile then 0 else length (handedOut (pending st)))"
      and nm: "\<forall>g limit. namesSoFar facts g limit
                ((if kind eofToken = Identifier then 1 else 0) +
                 (if kind eofToken = EndOfFile then 0 else identifierCount (handedOut (pending st)))) st \<longrightarrow>
              namesSoFar facts g limit 0 st'"
      by blast
    from len have "outs = []" by (simp add: eofToken_def)
    moreover have "places facts afterBase False [eofToken] = [OutsideDigits]" for afterBase
      using eof by (simp add: eofToken_def)
    ultimately show ?thesis
      using r dg pr em nm
      by (simp add: tl loopPostcondition_def Nil eofToken_def identifierCount_def)
  next
    case (Cons a rest)
    obtain t ds where a: "a = (t, ds)" by (cases a)
    have p: "pending st = (t, ds) # rest" using Cons a by simp
    let ?st1 = "st\<lparr>pending := rest, diagnostics := diagnostics st @ ds\<rparr>"
    have nt: "nextToken st = (t, ?st1)" by (rule nextToken_Cons [OF p])
    have n1: "namesSoFar facts g limit k ?st1 = namesSoFar facts g limit k st" for g limit k
      by (rule namesSoFar_cong) simp_all
    show ?thesis
    proof (cases "kind t = IntegerBase")
      case False
      have tl: "tokenLoop facts obf st = afterFetch facts obf t ?st1"
        using False by (simp add: tokenLoop_unfold nt)
      have sh: "kind t \<noteq> EndOfFile \<longrightarrow> length (pending ?st1) < length (pending st)"
        by (simp add: p)
      have g1: "obf \<longrightarrow> rng ?st1 \<noteq> None" using gen by simp
      have w1: "alphanumericMap (obfuscationMap ?st1)" using wf by simp
      from afterFetch_step [OF ih sh g1 w1]
      obtain st' q outs where
        r: "afterFetch facts obf t ?st1 = Some st'"
        and le: "obfuscationMap ?st1 \<subseteq>\<^sub>m obfuscationMap st'"
        and wf': "alphanumericMap (obfuscationMap st')"
        and dg: "diagnostics st' = diagnostics ?st1 @
             (if kind t = EndOfFile then [] else bufferedDiagnostics (pending ?st1))"
        and pr: "printed (output' st') = printed (output' ?st1) @ q # outs"
        and em: "emittedAs facts obf (obfuscationMap st') (t, OutsideDigits) q"
        and len: "length outs = (if kind t = EndOfFile then 0 else length (handedOut (pending ?st1)))"
        and sep: "kind t \<noteq> EndOfFile \<longrightarrow>
              (\<forall>afterBase.
                 list_all2 (emittedAs facts obf (obfuscationMap st'))
                   (zip (handedOut (pending ?st1)) (places facts afterBase False (handedOut (pending ?st1))))
                   outs)"
        and nm: "\<forall>g limit. namesSoFar facts g limit
                ((if kind t = Identifier then 1 else 0) +
                 (if kind t = EndOfFile then 0 else identifierCount (handedOut (pending ?st1)))) ?st1 \<longrightarrow>
              namesSoFar facts g limit 0 st'"
        by blast
      let ?E = "emittedAs facts obf (obfuscationMap st')"
      let ?tail = "if kind t = EndOfFile then [] else handedOut rest"
      have ho: "handedOut (pending st) = t # ?tail" by (simp add: p)
      have first: "?E (t, if \<not> (afterBase \<and> isPossibleVectorDigit facts (kind t)) then OutsideDigits
                         else DigitOfOtherBase) q" for afterBase
        using em emittedAs_other_base [OF em] by simp
      have tailok: "list_all2 ?E (zip ?tail (places facts afterBase False ?tail)) outs" for afterBase
        using sep len by (cases "kind t = EndOfFile") simp_all
      have pl: "places facts afterBase False (t # ?tail) =
          (if \<not> (afterBase \<and> isPossibleVectorDigit facts (kind t)) then OutsideDigits
           else DigitOfOtherBase)
          # places facts (afterBase \<and> isPossibleVectorDigit facts (kind t)) False ?tail" for afterBase
        using False by (simp add: Let_def)
      have l2: "list_all2 ?E
            (zip (handedOut (pending st)) (places facts afterBase False (handedOut (pending st))))
            (q # outs)" for afterBase
        unfolding ho pl using first [of afterBase] tailok by simp
      have ln: "length (q # outs) = length (handedOut (pending st))"
        using len by (simp add: ho)
      have pr': "printed (output' st') = printed (output' st) @ (q # outs)"
        using pr by simp
      have dg': "diagnostics st' = diagnostics st @ bufferedDiagnostics (pending st)"
        using dg by (simp add: p)
      have le': "obfuscationMap st \<subseteq>\<^sub>m obfuscationMap st'"
        using le by simp
      have ic: "identifierCount (handedOut (pending st)) =
          (if kind t = Identifier then 1 else 0) +
          (if kind t = EndOfFile then 0 else identifierCount (handedOut (pending ?st1)))"
        by (simp add: ho identifierCount_def)
      have nm': "\<forall>g limit. namesSoFar facts g limit (identifierCount (handedOut (pending st))) st \<longrightarrow>
          namesSoFar facts g limit 0 st'"
        unfolding ic using nm by (simp only: n1)
      show ?thesis
        unfolding loopPostcondition_def tl r
        using le' wf' dg' pr' l2 ln nm' by blast
    next
      case True
      obtain digits stop diags rest' where dr: "digitRun facts rest = (digits, stop, diags, rest')"
        by (cases "digitRun facts rest") auto
      note d = digitRun_handedOut [OF eof dr]
      let ?st2 = "st\<lparr>pending := rest', diagnostics := (diagnostics st @ ds) @ diags,
                      output' := (output' st)\<lparr>printed := printed (output' st) @ t # digits\<rparr>\<rparr>"
      have vd: "vectorDigits facts t ?st1 = Some (stop, ?st2)"
        by (simp add: vectorDigits_result [OF eof] dr)
      have tl: "tokenLoop facts obf st = afterFetch facts obf stop ?st2"
        using True by (simp add: tokenLoop_unfold nt vd)
      have sh: "kind stop \<noteq> EndOfFile \<longrightarrow> length (pending ?st2) < length (pending st)"
        using d(5) by (simp add: p)
      have g2: "obf \<longrightarrow> rng ?st2 \<noteq> None" using gen by simp
      have w2: "alphanumericMap (obfuscationMap ?st2)" using wf by simp
      have n2: "namesSoFar facts g limit k ?st2 = namesSoFar facts g limit k st" for g limit k
        by (rule namesSoFar_cong) simp_all
      from afterFetch_step [OF ih sh g2 w2]
      obtain st' q outs where
        r: "afterFetch facts obf stop ?st2 = Some st'"
        and le: "obfuscationMap ?st2 \<subseteq>\<^sub>m obfuscationMap st'"
        and wf': "alphanumericMap (obfuscationMap st')"
        and dg: "diagnostics st' = diagnostics ?st2 @
             (if kind stop = EndOfFile then [] else bufferedDiagnostics (pending ?st2))"
        and pr: "printed (output' st') = printed (output' ?st2) @ q # outs"
        and em: "emittedAs facts obf (obfuscationMap st') (stop, OutsideDigits) q"
        and len: "length outs = (if kind stop = EndOfFile then 0 else length (handedOut (pending ?st2)))"
        and sep: "kind stop \<noteq> EndOfFile \<longrightarrow>
              (\<forall>afterBase.
                 list_all2 (emittedAs facts obf (obfuscationMap st'))
                   (zip (handedOut (pending ?st2)) (places facts afterBase False (handedOut (pending ?st2))))
                   outs)"
        and nm: "\<forall>g limit. namesSoFar facts g limit
                ((if kind stop = Identifier then 1 else 0) +
                 (if kind stop = EndOfFile then 0 else identifierCount (handedOut (pending ?st2)))) ?st2 \<longrightarrow>
              namesSoFar facts g limit 0 st'"
        by blast
      let ?E = "emittedAs facts obf (obfuscationMap st')"
      let ?tail = "if kind stop = EndOfFile then [] else handedOut rest'"
      have ho: "handedOut (pending st) = t # digits @ stop # ?tail"
        using True d(1) by (simp add: p)
      have bd: "bufferedDiagnostics (pending st) = ds @ diags @
          (if kind stop = EndOfFile then [] else bufferedDiagnostics rest')"
        using True d(2) by (simp add: p)
      have l2: "list_all2 ?E
            (zip (handedOut (pending st)) (places facts afterBase False (handedOut (pending st))))
            (t # digits @ q # outs)" for afterBase
      proof -
        define c0 where "c0 = (if \<not> (afterBase \<and> isPossibleVectorDigit facts IntegerBase)
            then OutsideDigits else DigitOfOtherBase)"
        define s1 where "s1 = (if afterBase \<and> isPossibleVectorDigit facts IntegerBase then False
            else \<not> afterBase)"
        define c1 where "c1 = (if s1 then DigitOfSeparatedBase else DigitOfOtherBase)"
        have pl: "places facts afterBase False (t # digits @ stop # ?tail) =
            c0 # replicate (length digits) c1 @ OutsideDigits #
              places facts (kind stop = IntegerBase) False ?tail"
          using True d(3)
          by (simp add: places_digits [OF d(4)] c0_def s1_def c1_def Let_def)
        have tailok: "list_all2 ?E (zip ?tail (places facts (kind stop = IntegerBase) False ?tail)) outs"
          using sep len by (cases "kind stop = EndOfFile") simp_all
        have first: "?E (t, c0) t"
          using True by (simp add: emittedAs_def c0_def)
        have c1: "c1 \<noteq> OutsideDigits" by (simp add: c1_def)
        have "list_all2 ?E
            (zip digits (replicate (length digits) c1) @
             zip (stop # ?tail) (OutsideDigits # places facts (kind stop = IntegerBase) False ?tail))
            (digits @ q # outs)"
          by (rule list_all2_appendI [OF emittedAs_digits [OF c1]]) (simp add: em tailok)
        then show ?thesis
          unfolding ho pl using first by simp
      qed
      have ln: "length (t # digits @ q # outs) = length (handedOut (pending st))"
        using len by (simp add: ho)
      have pr': "printed (output' st') = printed (output' st) @ (t # digits @ q # outs)"
        using pr by simp
      have dg': "diagnostics st' = diagnostics st @ bufferedDiagnostics (pending st)"
        using dg by (simp add: bd)
      have le': "obfuscationMap st \<subseteq>\<^sub>m obfuscationMap st'"
        using le by simp
      have nm': "namesSoFar facts g limit 0 st'"
        if h: "namesSoFar facts g limit (identifierCount (handedOut (pending st))) st" for g limit
      proof -
        have "(if kind stop = Identifier then 1 else 0) +
              (if kind stop = EndOfFile then 0 else identifierCount (handedOut (pending ?st2)))
            \<le> identifierCount (handedOut (pending st))"
          by (simp add: ho identifierCount_def)
        from namesSoFar_fewer [OF h this]
        have "namesSoFar facts g limit
            ((if kind stop = Identifier then 1 else 0) +
             (if kind stop = EndOfFile then 0 else identifierCount (handedOut (pending ?st2)))) ?st2"
          by (simp only: n2)
        with nm show ?thesis by blast
      qed
      show ?thesis
        unfolding loopPostcondition_def tl r
        using le' wf' dg' pr' l2 ln nm' by blast
    qed
  qed
qed

subsection \<open>The whole function\<close>

lemma anyErrorDiagnostic_iff:
  "anyErrorDiagnostic dgs \<longleftrightarrow> (\<exists>dg\<in>set dgs. diagIsError dg)"
  by (induction dgs) simp_all

lemma onLoadError_fold_stdout:
  "stdoutText (foldl (\<lambda>d' message. onLoadError message d') d errors) = stdoutText d"
  by (induction errors arbitrary: d) (simp_all add: onLoadError_def printError_def OS_printE_def)

lemma startPreprocessor_simps:
  assumes "startPreprocessor env penv ic idr obf fixed d = (st0, d1)"
  shows "obf \<longrightarrow> rng st0 \<noteq> None"
    and "obfuscationMap st0 = Map.empty"
    and "diagnostics st0 = []"
    and "printed (output' st0) = []"
    and "stdoutText d1 = stdoutText d"
    and "obf \<and> fixed \<longrightarrow> rng st0 = Some (defaultGenerator penv)"
  using assms
  by (auto simp: startPreprocessor_def Let_def onLoadError_fold_stdout split: prod.splits)

text \<open>
  Claim C6. \<open>runPreprocessor\<close> buffers the diagnostics of the preprocessor: when the loop
  ends they are those of the tokens handed out, and nothing has been printed to the
  standard output. If one of them is an error, it prints the report of all of them to the
  standard error and returns false, printing nothing to the standard output; otherwise it
  prints the text of the printer and a newline to the standard output and returns true.
  The function returns whenever end-of-file is not a possible vector digit.
\<close>

theorem runPreprocessor_reports:
  assumes "\<not> isPossibleVectorDigit facts EndOfFile"
    and "startPreprocessor env penv inclComments inclDirectives obfuscateIds fixedSeed d = (st0, d1)"
  shows "\<exists>st'. tokenLoop facts obfuscateIds st0 = Some st' \<and>
           diagnostics st' = bufferedDiagnostics (pending st0) \<and>
           stdoutText d1 = stdoutText d \<and>
           runPreprocessor env penv facts inclComments inclDirectives obfuscateIds fixedSeed d =
             Some (if \<exists>dg\<in>set (diagnostics st'). diagIsError dg
                   then (False, d1\<lparr>stderrText := stderrText d1 @ [(None, reportAll penv (diagnostics st'))]\<rparr>)
                   else (True, d1\<lparr>stdoutText := stdoutText d1 @
                                    [(None, printerStr penv (output' st') @ [CHR 0x0A])]\<rparr>))"
proof -
  note s = startPreprocessor_simps [OF assms(2)]
  have "alphanumericMap (obfuscationMap st0)"
    by (simp add: s(2) alphanumericMap_def)
  from tokenLoop_run [OF assms(1) s(1) this] obtain st' where
    run: "tokenLoop facts obfuscateIds st0 = Some st'" and
    post: "loopPostcondition facts obfuscateIds st0 st'" by blast
  from post have dg: "diagnostics st' = bufferedDiagnostics (pending st0)"
    by (simp add: loopPostcondition_def s(3))
  show ?thesis
    using run dg s(5)
    by (simp add: runPreprocessor_def assms(2) reportPreprocessed_def anyErrorDiagnostic_iff
        OS_printE_def OS_print_def)
qed






section \<open>The properties at concrete inputs\<close>

lemma example_simps:
  "options exampleDriver = exampleOptions"
  "anyFailedLoads exampleDriver = False"
  "stderrText exampleDriver = []"
  "stdoutText exampleDriver = []"
  "currentPath exampleDriver = ''/work''"
  "sourceLoader exampleDriver =
     \<lparr>loaderFiles = [], loaderLibraryFiles = [], searchDirectories = [], searchExtensions = []\<rparr>"
  by (simp_all add: exampleDriver_def)



lemma exampleFacts_eof: "\<not> isPossibleVectorDigit exampleFacts EndOfFile"
  by (simp add: exampleFacts_def integerLiteral_def question_def)

lemma example_start_pending:
  "pending (fst (startPreprocessor exampleEnv (examplePreprocessEnv toks) ic idr obf fixed d)) = toks"
  by (simp add: startPreprocessor_def examplePreprocessEnv_def split_beta Let_def)

lemma driverWithFile_run:
  "processOptions exampleEnv driverWithFile = (True, snd (processOptions exampleEnv driverWithFile))"
proof -
  have v: "optionsValid exampleEnv (options driverWithFile)"
    by (simp add: optionsValid_def driverWithFile_def positionalArg_def exampleDriver_def
        exampleOptions_def)
  show ?thesis
    by (simp add: processOptions_valid [OF v] Let_def)
       (simp add: driverWithFile_def positionalArg_def exampleDriver_def exampleOptions_def
        exampleEnv_def loaderWithLibraries_def addFiles_def)
qed

text \<open>
  With \<open>-W index-oob\<close> and no profile, the user's option overrides the promotion of
  \<open>IndexOOB\<close> to an error, and the promotion of \<open>RangeOOB\<close> stands.
\<close>

theorem severity_table_after_processOptions_witness:
  "fst (processOptions exampleEnv driverWithFile) \<and>
   compat (options driverWithFile) \<noteq> Some ''vcs'' \<and>
   severityTable (diagEngine (snd (processOptions exampleEnv driverWithFile))) IndexOOB = Some Warning \<and>
   severityTable (diagEngine (snd (processOptions exampleEnv driverWithFile))) RangeOOB = Some Error"
proof -
  define d' where "d' = snd (processOptions exampleEnv driverWithFile)"
  have run: "processOptions exampleEnv driverWithFile = (True, d')"
    unfolding d'_def by (rule driverWithFile_run)
  have o: "warningOptions (options driverWithFile) = [''index-oob'']"
      "compat (options driverWithFile) = None"
    by (simp_all add: driverWithFile_def positionalArg_def exampleDriver_def exampleOptions_def)
  have w: "\<forall>t. snd (setWarningOptions exampleEnv (warningOptions (options driverWithFile)) t) IndexOOB
      = Some Warning"
    by (simp add: o exampleEnv_def)
  note main = severity_table_after_processOptions [OF run, of IndexOOB "Some Warning"]
  from main w have a: "severityTable (diagEngine d') IndexOOB = Some Warning"
    by blast
  from main have "severityTable (diagEngine d') =
      snd (setWarningOptions exampleEnv [''index-oob'']
        (defaultPromotions (mandatoryOverrides
           (setDefaultWarnings exampleEnv (severityTable (diagEngine driverWithFile))))))"
    by (simp add: o)
  then have b: "severityTable (diagEngine d') RangeOOB = Some Error"
    by (simp add: exampleEnv_def defaultPromotions_def)
  show ?thesis
    using a b run by (simp add: o d'_def [symmetric])
qed

text \<open>
  \<open>--libraries-inherit-macros\<close> alone gives the error about \<open>--single-unit\<close>; together
  with \<open>--compat foo\<close> it gives the error about the compatibility option instead.
\<close>

theorem single_unit_required_witness:
  "librariesInheritMacros (options driverInheritMacros) = Some True \<and>
   singleUnit (options driverInheritMacros) \<noteq> Some True \<and>
   (compat (options driverInheritMacros) = None \<or> compat (options driverInheritMacros) = Some ''vcs'') \<and>
   minTypMax (options driverInheritMacros) \<in> {None, Some ''min'', Some ''typ'', Some ''max''} \<and>
   (\<exists>d'. processOptions exampleEnv driverInheritMacros = (False, d') \<and>
         stderrText d' =
           [(Some errorColor, ''error: ''),
            (None, ''--single-unit must be set when --libraries-inherit-macros is used''),
            (None, [CHR 0x0A])] \<and>
         sourceLoader d' = sourceLoader driverInheritMacros)"
proof -
  have h: "librariesInheritMacros (options driverInheritMacros) = Some True"
    "singleUnit (options driverInheritMacros) \<noteq> Some True"
    "compat (options driverInheritMacros) = None \<or> compat (options driverInheritMacros) = Some ''vcs''"
    "minTypMax (options driverInheritMacros) \<in> {None, Some ''min'', Some ''typ'', Some ''max''}"
    by (simp_all add: driverInheritMacros_def example_simps exampleOptions_def)
  have e: "stderrText driverInheritMacros = []"
    by (simp add: driverInheritMacros_def example_simps)
  from single_unit_required [OF h, of exampleEnv] h show ?thesis
    by (auto simp: e)
qed

theorem single_unit_required_counterexample:
  "librariesInheritMacros (options driverCompatFoo) = Some True \<and>
   singleUnit (options driverCompatFoo) = None \<and>
   processOptions exampleEnv driverCompatFoo =
     (False, driverCompatFoo\<lparr>stderrText :=
        [(Some errorColor, ''error: ''),
         (None, ''invalid value for compat option: '' @ [CHR 0x27] @ ''foo'' @ [CHR 0x27]),
         (None, [CHR 0x0A])]\<rparr>)"
  by (simp add: processOptions_def enableColors_def validateOptions_def validateCompat_def
      printError_def OS_printE_def quoted_def driverCompatFoo_def exampleDriver_def
      exampleOptions_def exampleEnv_def)



text \<open>
  \<open>--compat foo\<close> is refused; \<open>--compat vcs top.sv\<close> is accepted, keeps an option that
  was set and fills in the others.
\<close>

theorem compat_accepts_only_vcs_witness:
  "compat (options driverCompatFoo) = Some ''foo'' \<and> ''foo'' \<noteq> ''vcs'' \<and>
   (\<exists>d'. processOptions exampleEnv driverCompatFoo = (False, d') \<and>
         stderrText d' =
           [(Some errorColor, ''error: ''),
            (None, ''invalid value for compat option: '' @ [CHR 0x27] @ ''foo'' @ [CHR 0x27]),
            (None, [CHR 0x0A])]) \<and>
   compat (options driverCompatVcs) = Some ''vcs'' \<and>
   allowHierarchicalConst (options (snd (processOptions exampleEnv driverCompatVcs))) = Some False \<and>
   allowUseBeforeDeclare (options (snd (processOptions exampleEnv driverCompatVcs))) = Some True \<and>
   relaxEnumConversions (options (snd (processOptions exampleEnv driverCompatVcs))) = Some True \<and>
   fst (processOptions exampleEnv driverCompatVcs) \<and>
   stderrText (snd (processOptions exampleEnv driverCompatVcs)) = []"
proof -
  have a: "compat (options driverCompatFoo) = Some ''foo''" "stderrText driverCompatFoo = []"
    by (simp_all add: driverCompatFoo_def example_simps exampleOptions_def)
  have b: "compat (options driverCompatVcs) = Some ''vcs''"
    "allowHierarchicalConst (options driverCompatVcs) = Some False"
    "allowUseBeforeDeclare (options driverCompatVcs) = None"
    "relaxEnumConversions (options driverCompatVcs) = None"
    "minTypMax (options driverCompatVcs) = None"
    "librariesInheritMacros (options driverCompatVcs) = None"
    "timeScale (options driverCompatVcs) = None"
    "includeDirs (options driverCompatVcs) = []"
    "includeSystemDirs (options driverCompatVcs) = []"
    "\<not> anyFailedLoads driverCompatVcs"
    "stderrText driverCompatVcs = []"
    by (simp_all add: driverCompatVcs_def positionalArg_def example_simps exampleOptions_def)
  have h: "hasFiles exampleEnv
      (loaderWithLibraries (options driverCompatVcs) (sourceLoader driverCompatVcs))"
    by (simp add: driverCompatVcs_def positionalArg_def example_simps exampleOptions_def
        exampleEnv_def loaderWithLibraries_def addFiles_def addSearchDirectories_def
        addSearchExtensions_def)
  have v: "optionsValid exampleEnv (options driverCompatVcs)"
    by (simp add: optionsValid_def b)
  have e: "stderrText (snd (processOptions exampleEnv driverCompatVcs)) = []"
    using h
    by (simp add: processOptions_valid [OF v] Let_def b registerPaths_simps compatApplied_simps
        enableColors_simps applyCompatVcs_simps missingDirWarnings_def)
  from compat_accepts_only_vcs [where d = driverCompatFoo and v = "''foo''" and env = exampleEnv]
    compat_accepts_only_vcs [where d = driverCompatVcs and v = "''vcs''" and env = exampleEnv]
  show ?thesis
    using h e by (auto simp: a b)
qed

text \<open>
  Without input files and with valid options the error is \<open>no input files\<close>; after a
  failed load nothing is printed; with \<open>--timing fast\<close> and no input files the error is
  the one about the timing option.
\<close>

theorem no_input_files_witness:
  "optionsValid exampleEnv (options exampleDriver) \<and> \<not> anyFailedLoads exampleDriver \<and>
   \<not> hasFiles exampleEnv (loaderWithLibraries (options exampleDriver) (sourceLoader exampleDriver)) \<and>
   (\<exists>d'. processOptions exampleEnv exampleDriver = (False, d') \<and>
         stderrText d' =
           [(Some errorColor, ''error: ''), (None, ''no input files''), (None, [CHR 0x0A])]) \<and>
   anyFailedLoads driverFailedLoad \<and>
   (\<exists>d'. processOptions exampleEnv driverFailedLoad = (False, d') \<and> stderrText d' = [])"
proof -
  have v: "optionsValid exampleEnv (options exampleDriver)"
    by (simp add: optionsValid_def example_simps exampleOptions_def)
  have n: "\<not> anyFailedLoads exampleDriver"
    "\<not> hasFiles exampleEnv (loaderWithLibraries (options exampleDriver) (sourceLoader exampleDriver))"
    "missingDirWarnings exampleEnv (includeDirs (options exampleDriver)) = []"
    "missingDirWarnings exampleEnv (includeSystemDirs (options exampleDriver)) = []"
    by (simp_all add: example_simps exampleOptions_def exampleEnv_def loaderWithLibraries_def
        missingDirWarnings_def)
  have f: "anyFailedLoads driverFailedLoad" "stderrText driverFailedLoad = []"
    by (simp_all add: driverFailedLoad_def example_simps)
  have v2: "optionsValid exampleEnv (options driverFailedLoad)"
    by (simp add: optionsValid_def driverFailedLoad_def example_simps exampleOptions_def)
  have r2: "stderrText (snd (processOptions exampleEnv driverFailedLoad)) = []"
    by (simp add: processOptions_valid [OF v2] Let_def f registerPaths_simps compatApplied_simps
        enableColors_simps)
       (simp add: driverFailedLoad_def example_simps exampleOptions_def missingDirWarnings_def)
  from no_input_files [where env = exampleEnv and d = exampleDriver]
    no_input_files [where env = exampleEnv and d = driverFailedLoad]
  show ?thesis
    using v n f r2 by (auto simp: example_simps)
qed

theorem no_input_files_counterexample:
  "\<not> anyFailedLoads driverTimingFast \<and>
   loaderFiles (sourceLoader driverTimingFast) = [] \<and>
   loaderLibraryFiles (sourceLoader driverTimingFast) = [] \<and>
   libraryFiles (options driverTimingFast) = [] \<and>
   processOptions exampleEnv driverTimingFast =
     (False, driverTimingFast\<lparr>stderrText :=
        [(Some errorColor, ''error: ''),
         (None, ''invalid value for timing option: '' @ [CHR 0x27] @ ''fast'' @ [CHR 0x27]),
         (None, [CHR 0x0A])]\<rparr>)"
  by (simp add: processOptions_def enableColors_def validateOptions_def validateCompat_def
      validateTiming_def printError_def OS_printE_def quoted_def driverTimingFast_def
      exampleDriver_def exampleOptions_def exampleEnv_def)


text \<open>
  A command file whose text does not parse, with a parser that leaves the working
  directory changed: \<open>-F\<close> restores it, \<open>-f\<close> leaves it as the parser left it.
\<close>

theorem processCommandFile_working_directory_witness:
  "currentPathReadable exampleEnv (currentPath exampleDriver) \<and>
   directoryEnterable exampleEnv (currentPath exampleDriver) \<and>
   (\<exists>d'. processCommandFile exampleEnv ''cmd/args.f'' True exampleDriver = Inr (False, d') \<and>
         currentPath d' = ''/work'') \<and>
   commandFileText exampleEnv exampleDriver ''missing.f'' = None \<and>
   (\<exists>d'. processCommandFile (exampleEnv\<lparr>currentPathReadable := \<lambda>p. False\<rparr>) ''missing.f'' True
          exampleDriver = Inr (False, d') \<and> currentPath d' = ''/work'') \<and>
   commandFileText exampleEnv exampleDriver ''cmd/args.f'' = Some ''--bogus'' \<and>
   (\<exists>d'. processCommandFile exampleEnv ''cmd/args.f'' False exampleDriver = Inr (False, d') \<and>
         currentPath d' = ''/elsewhere'') \<and>
   (\<forall>argStr po x. currentPath (snd (cmdLine_parse (exampleEnv\<lparr>cmdLine_parse := \<lambda>a po x. (True, x)\<rparr>)
        argStr po x)) = currentPath x) \<and>
   (\<exists>d'. processCommandFile (exampleEnv\<lparr>cmdLine_parse := \<lambda>a po x. (True, x)\<rparr>) ''cmd/args.f'' False
          exampleDriver = Inr (True, d') \<and> currentPath d' = ''/work'')"
proof -
  let ?env2 = "exampleEnv\<lparr>cmdLine_parse := \<lambda>a po x. (True, x)\<rparr>"
  let ?env3 = "exampleEnv\<lparr>currentPathReadable := \<lambda>p. False\<rparr>"
  have t: "commandFileText exampleEnv exampleDriver ''cmd/args.f'' = Some ''--bogus''"
    by (simp add: commandFileText_def exampleEnv_def example_simps)
  have n: "commandFileText exampleEnv exampleDriver ''missing.f'' = None"
    "commandFileText ?env3 exampleDriver ''missing.f'' = None"
    by (simp_all add: commandFileText_def exampleEnv_def)
  have e: "currentPathReadable exampleEnv (currentPath exampleDriver)"
    "directoryEnterable exampleEnv (currentPath exampleDriver)"
    by (simp_all add: exampleEnv_def example_simps)
  have p: "cmdLine_parse exampleEnv a po x =
      (False, x\<lparr>cmdLineErrors := cmdLineErrors x @ [''unknown command line argument''],
                currentPath := ''/elsewhere''\<rparr>)" for a po x
    by (simp add: exampleEnv_def)
  have r1: "fst (projr (processCommandFile exampleEnv ''cmd/args.f'' True exampleDriver)) = False"
    by (simp add: processCommandFile_def OS_readFile_def Let_def exampleEnv_def example_simps
        fs_current_path_def fs_set_current_path_def)
  have r2: "fst (projr (processCommandFile exampleEnv ''cmd/args.f'' False exampleDriver)) = False"
    by (simp add: processCommandFile_def OS_readFile_def Let_def exampleEnv_def example_simps
        fs_current_path_def fs_set_current_path_def)
  have r3: "fst (projr (processCommandFile ?env2 ''cmd/args.f'' False exampleDriver)) = True"
    by (simp add: processCommandFile_def OS_readFile_def Let_def exampleEnv_def example_simps
        fs_current_path_def fs_set_current_path_def)
  have r4: "fst (projr (processCommandFile ?env3 ''missing.f'' True exampleDriver)) = False"
    by (simp add: processCommandFile_def OS_readFile_def Let_def exampleEnv_def example_simps
        fs_current_path_def fs_set_current_path_def)
  have q: "\<forall>argStr po x. currentPath (snd (cmdLine_parse ?env2 argStr po x)) = currentPath x"
    by simp
  from processCommandFile_working_directory [where env = exampleEnv and fileName = "''cmd/args.f''"
      and d = exampleDriver]
    processCommandFile_working_directory [where env = ?env2 and fileName = "''cmd/args.f''"
      and d = exampleDriver]
    processCommandFile_working_directory [where env = ?env3 and fileName = "''missing.f''"
      and d = exampleDriver]
  show ?thesis
    using r1 r2 r3 r4 q e n by (auto simp: t p example_simps)
qed

text \<open>
  A \<open>-F\<close> file given by an absolute path while the working directory has been removed:
  the capture fails, the change to the file's directory succeeds, the restore to the empty
  path fails, and the function returns in the directory of the command file.
\<close>

theorem processCommandFile_working_directory_counterexample:
  "\<not> currentPathReadable exampleEnv ''/gone'' \<and>
   processCommandFile (exampleEnv\<lparr>cmdLine_parse := \<lambda>a po x. (True, x)\<rparr>) ''/work/cmd/args.f'' True
     (exampleDriver\<lparr>currentPath := ''/gone''\<rparr>) =
   Inr (True, exampleDriver\<lparr>currentPath := ''/work/cmd''\<rparr>)"
  by (simp add: processCommandFile_def OS_readFile_def Let_def exampleEnv_def fs_current_path_def
      fs_set_current_path_def)

text \<open>
  Claim C5. After an integer base that is printed, the possible vector digits that follow
  are to be printed verbatim. The loop does not do so for an integer base that itself
  ends the digits of an earlier one: in \<open>'h 'h FF\<close> and in \<open>1'b1 ? 8'hAB : 8'hCD\<close> the
  identifiers \<open>FF\<close> and \<open>AB\<close> come directly after a printed integer base and are
  obfuscated, while \<open>CD\<close>, after a colon and an integer base, is printed verbatim.
\<close>

theorem integer_base_ending_a_digit_run:
  "isPossibleVectorDigit exampleFacts Identifier \<and>
   runExample exampleFacts [base ''h'', base ''h'', tok Identifier ''FF''] True =
     Some (True, [(None, CHR 0x27 # ''h '' @ CHR 0x27 # ''h 07ELSZgnu18FMTah  '' @ [CHR 0x0A])], []) \<and>
   runExample exampleFacts conditionalTokens True =
     Some (True, [(None, ''1 'b 1 ? 8 'h 07ELSZgnu18FMTah : 8 'h CD  '' @ [CHR 0x0A])], [])"
  by code_simp







lemma error_run: "runExample exampleFacts errorTokens False = Some (False, [], [(None, ''error;'')])"
  by code_simp

lemma clean_run:
  "runExample exampleFacts [tok Identifier ''m'', tok semicolon '';''] False =
     Some (True, [(None, ''m ;  '' @ [CHR 0x0A])], [])"
  by code_simp

text \<open>With an error among the diagnostics only the report is printed; without one, the output.\<close>

theorem runPreprocessor_reports_witness:
  "\<not> isPossibleVectorDigit exampleFacts EndOfFile \<and>
   (\<exists>st'. tokenLoop exampleFacts False
            (fst (startPreprocessor exampleEnv (examplePreprocessEnv errorTokens) False False False True
               driverWithFile)) = Some st' \<and>
      diagnostics st' = [\<lparr>diagCode = OtherDiag 1, diagIsError = True\<rparr>]) \<and>
   runExample exampleFacts errorTokens False = Some (False, [], [(None, ''error;'')]) \<and>
   runExample exampleFacts [tok Identifier ''m'', tok semicolon '';''] False =
     Some (True, [(None, ''m ;  '' @ [CHR 0x0A])], [])"
proof -
  let ?start = "startPreprocessor exampleEnv (examplePreprocessEnv errorTokens) False False False True
      driverWithFile"
  have start: "?start = (fst ?start, snd ?start)" by simp
  have b: "bufferedDiagnostics errorTokens = [\<lparr>diagCode = OtherDiag 1, diagIsError = True\<rparr>]"
    by (simp add: errorTokens_def tok_def semicolon_def)
  from runPreprocessor_reports [OF exampleFacts_eof start]
  have "\<exists>st'. tokenLoop exampleFacts False (fst ?start) = Some st' \<and>
      diagnostics st' = [\<lparr>diagCode = OtherDiag 1, diagIsError = True\<rparr>]"
    by (simp only: example_start_pending b) blast
  with exampleFacts_eof error_run clean_run show ?thesis by blast
qed

end
